theory Spec2Isabelle
  imports Complex_Main
begin

section \<open>Request values, strings and identifiers\<close>

text \<open>
  A value of a JSON request body that a controller only inspects (with
  \<^verbatim>\<open>includes\<close> or \<^verbatim>\<open>typeof\<close>); \<open>JUndefined\<close> is a field that is not there.
\<close>

datatype jsval =
    JUndefined
  | JNull
  | JBool bool
  | JNum real
  | JStr string
  | JArr "jsval list"
  | JObj "(string \<times> jsval) list"

text \<open>
  A body field that is stored on a schema path: not there (\<^verbatim>\<open>undefined\<close>),
  \<^verbatim>\<open>null\<close>, or a value of the type the schema declares for the path. Values of
  another JSON type (a number where the schema has a string) are outside the model.
  Numbers are the reals that finite doubles denote; a character is one of the code
  points U+0000 to U+00FF.
\<close>

datatype 'a field = Absent | Null | Val 'a

text \<open>JavaScript truthiness of such a field: the empty string and 0 are falsy, every array is truthy.\<close>

fun truthyStr :: "string field \<Rightarrow> bool" where
  "truthyStr (Val s) = (s \<noteq> [])"
| "truthyStr _ = False"

fun truthyNum :: "real field \<Rightarrow> bool" where
  "truthyNum (Val n) = (n \<noteq> 0)"
| "truthyNum _ = False"

fun truthyArr :: "'a list field \<Rightarrow> bool" where
  "truthyArr (Val xs) = True"
| "truthyArr _ = False"

text \<open>
  JavaScript truthiness of a value of the body: \<^verbatim>\<open>undefined\<close>, \<^verbatim>\<open>null\<close>, \<^verbatim>\<open>false\<close>, 0
  and the empty string are falsy, every array and every object is truthy.
\<close>

fun truthy :: "jsval \<Rightarrow> bool" where
  "truthy JUndefined = False"
| "truthy JNull = False"
| "truthy (JBool b) = b"
| "truthy (JNum n) = (n \<noteq> 0)"
| "truthy (JStr s) = (s \<noteq> [])"
| "truthy (JArr xs) = True"
| "truthy (JObj kvs) = True"

text \<open>The string that a value is, when \<^verbatim>\<open>typeof\<close> it is \<^verbatim>\<open>'string'\<close>.\<close>

fun asString :: "jsval \<Rightarrow> string option" where
  "asString (JStr s) = Some s"
| "asString _ = None"

text \<open>
  \<^verbatim>\<open>String.prototype.toLowerCase\<close> on the code points U+0000 to U+00FF: the letters A
  to Z, and the letters U+00C0 to U+00DE apart from the multiplication sign U+00D7, move
  up by 32; every other character stays.
\<close>

definition toLowerCaseChar :: "char \<Rightarrow> char" where
  "toLowerCaseChar c =
     (case map_of (zip ''ABCDEFGHIJKLMNOPQRSTUVWXYZ'' ''abcdefghijklmnopqrstuvwxyz'') c of
        Some l \<Rightarrow> l
      | None \<Rightarrow>
          (case map_of
                  (zip [CHR 0xC0, CHR 0xC1, CHR 0xC2, CHR 0xC3, CHR 0xC4, CHR 0xC5, CHR 0xC6, CHR 0xC7,
                        CHR 0xC8, CHR 0xC9, CHR 0xCA, CHR 0xCB, CHR 0xCC, CHR 0xCD, CHR 0xCE, CHR 0xCF,
                        CHR 0xD0, CHR 0xD1, CHR 0xD2, CHR 0xD3, CHR 0xD4, CHR 0xD5, CHR 0xD6,
                        CHR 0xD8, CHR 0xD9, CHR 0xDA, CHR 0xDB, CHR 0xDC, CHR 0xDD, CHR 0xDE]
                       [CHR 0xE0, CHR 0xE1, CHR 0xE2, CHR 0xE3, CHR 0xE4, CHR 0xE5, CHR 0xE6, CHR 0xE7,
                        CHR 0xE8, CHR 0xE9, CHR 0xEA, CHR 0xEB, CHR 0xEC, CHR 0xED, CHR 0xEE, CHR 0xEF,
                        CHR 0xF0, CHR 0xF1, CHR 0xF2, CHR 0xF3, CHR 0xF4, CHR 0xF5, CHR 0xF6,
                        CHR 0xF8, CHR 0xF9, CHR 0xFA, CHR 0xFB, CHR 0xFC, CHR 0xFD, CHR 0xFE]) c of
             Some l \<Rightarrow> l
           | None \<Rightarrow> c))"

definition toLowerCase :: "string \<Rightarrow> string" where
  "toLowerCase s = map toLowerCaseChar s"

text \<open>
  An ObjectId is written as 24 hexadecimal digits. Mongoose casts the string of a
  route parameter or of a query filter to an ObjectId and throws a CastError for any
  other string; the identifier is kept here as its lower-case hexadecimal form.
\<close>

type_synonym objectId = string

definition isHexDigit :: "char \<Rightarrow> bool" where
  "isHexDigit c = (c \<in> set ''0123456789abcdefABCDEF'')"

definition castObjectId :: "string \<Rightarrow> objectId option" where
  "castObjectId s =
     (if length s = 24 \<and> list_all isHexDigit s then Some (toLowerCase s) else None)"

text \<open>What a rejected promise carries, as far as the \<^verbatim>\<open>catch\<close> blocks look at it.\<close>

datatype error =
    CastError
  | ValidationError "string list"
  | DuplicateKey
  | OtherError

section \<open>The document store\<close>

text \<open>
  Every schema has \<^verbatim>\<open>timestamps: true\<close>: a document carries \<^verbatim>\<open>_id\<close> (here \<open>oid\<close>),
  \<^verbatim>\<open>createdAt\<close> and \<^verbatim>\<open>updatedAt\<close>. Time is a counter.
\<close>

record doc =
  oid :: objectId
  createdAt :: nat
  updatedAt :: nat

record user = doc +
  name :: string
  email :: string
  password :: string
  role :: string

record listing = doc +
  title :: string
  description :: string
  price :: real
  location :: string
  latitude :: "real field"
  longitude :: "real field"
  type :: string
  images :: "string list"
  ownerId :: objectId
  isApproved :: bool
  versionKey :: nat

text \<open>
  \<open>versionKey\<close> is \<^verbatim>\<open>__v\<close>, which Mongoose adds to a document of a schema that does
  not switch it off: 0 at creation, and incremented by \<^verbatim>\<open>save()\<close> when an array path has
  been set to another array. Only the listing schema has an array path (\<^verbatim>\<open>images\<close>), so
  the version key of a user or a booking never changes and is left out of their records.
\<close>

text \<open>
  models/booking.model.js. The booking's \<^verbatim>\<open>ownerId\<close> and \<^verbatim>\<open>message\<close> are named
  \<open>bookingOwnerId\<close> and \<open>bookingMessage\<close>, apart from the listing's owner and the
  response's message.
\<close>

record booking = doc +
  listingId :: objectId
  tenantId :: objectId
  bookingOwnerId :: objectId
  status :: string
  bookingMessage :: "string option"

text \<open>
  The collections, in insertion order, and the public ids of the images held by the
  external object store.
\<close>

record db =
  users :: "user list"
  listings :: "listing list"
  bookings :: "booking list"
  cloud :: "string set"

text \<open>\<^verbatim>\<open>Model.findById(id)\<close>: the cast of the id may throw; the result may be null.\<close>

definition findById :: "('a doc_scheme) list \<Rightarrow> string \<Rightarrow> error + ('a doc_scheme) option" where
  "findById docs i =
     (case castObjectId i of
        None \<Rightarrow> Inl CastError
      | Some k \<Rightarrow> Inr (find (\<lambda>d. oid d = k) docs))"

text \<open>Mongoose turns \<^verbatim>\<open>findById(undefined)\<close> into a query for \<^verbatim>\<open>_id: null\<close>, which finds nothing.\<close>

fun findByIdField :: "('a doc_scheme) list \<Rightarrow> string field \<Rightarrow> error + ('a doc_scheme) option" where
  "findByIdField docs (Val i) = findById docs i"
| "findByIdField docs _ = Inr None"

text \<open>Writing a document back under its \<^verbatim>\<open>_id\<close>, which is unique in a collection.\<close>

definition replaceDoc :: "('a doc_scheme) \<Rightarrow> ('a doc_scheme) list \<Rightarrow> ('a doc_scheme) list" where
  "replaceDoc d docs = map (\<lambda>x. if oid x = oid d then d else x) docs"

text \<open>
  \<^verbatim>\<open>doc.save()\<close> of a loaded document writes only when a path was modified, and then
  sets \<^verbatim>\<open>updatedAt\<close>.
\<close>

definition touch :: "nat \<Rightarrow> ('a doc_scheme) \<Rightarrow> ('a doc_scheme) \<Rightarrow> ('a doc_scheme)" where
  "touch now old new = (if new = old then old else new\<lparr>updatedAt := now\<rparr>)"

text \<open>\<^verbatim>\<open>.sort({ createdAt: -1 })\<close>: newest first.\<close>

definition sortNewestFirst :: "('a doc_scheme) list \<Rightarrow> ('a doc_scheme) list" where
  "sortNewestFirst docs = rev (sort_key createdAt docs)"

section \<open>Responses\<close>

text \<open>The status of \<^verbatim>\<open>res.status(..)\<close> and the envelope of \<^verbatim>\<open>res.json(..)\<close>.\<close>

record 'a response =
  httpStatus :: nat
  success :: bool
  message :: "string option"
  count :: "nat option"
  data :: "'a option"

definition failure :: "nat \<Rightarrow> string \<Rightarrow> 'a response" where
  "failure c m = \<lparr>httpStatus = c, success = False, message = Some m, count = None, data = None\<rparr>"

definition succeed :: "nat \<Rightarrow> string \<Rightarrow> 'a \<Rightarrow> 'a response" where
  "succeed c m d = \<lparr>httpStatus = c, success = True, message = Some m, count = None, data = Some d\<rparr>"

definition found :: "'a \<Rightarrow> 'a response" where
  "found d = \<lparr>httpStatus = 200, success = True, message = None, count = None, data = Some d\<rparr>"

definition listed :: "'a list \<Rightarrow> 'a list response" where
  "listed ds = \<lparr>httpStatus = 200, success = True, message = None, count = Some (length ds), data = Some ds\<rparr>"

section \<open>Booking controller\<close>

text \<open>
  The booking schema validates the \<^verbatim>\<open>status\<close> enum and \<^verbatim>\<open>message\<close> (at most 500
  characters). The controllers answer a ValidationError of a booking with their generic
  500, so the failing paths stand for the messages.
\<close>

definition validateBooking :: "booking \<Rightarrow> string list" where
  "validateBooking b =
     (if status b \<in> set [''Pending'', ''Accepted'', ''Rejected''] then [] else [''status''])
     @ (case bookingMessage b of
          Some m \<Rightarrow> (if length m \<le> 500 then [] else [''message''])
        | None \<Rightarrow> [])"

fun messageOf :: "string field \<Rightarrow> string option" where
  "messageOf (Val m) = Some m"
| "messageOf _ = None"

text \<open>
  \<^verbatim>\<open>createBooking\<close>; \<open>now\<close> is the time of the request and \<open>newId\<close> the ObjectId
  the driver generates for the new document.
\<close>

definition createBooking ::
  "nat \<Rightarrow> objectId \<Rightarrow> db \<Rightarrow> user \<Rightarrow> string field \<Rightarrow> string field \<Rightarrow> booking response \<times> db" where
  "createBooking now newId d u listingIdB messageB =
     (case findByIdField (listings d) listingIdB of
        Inl e \<Rightarrow> (failure 500 ''Failed to create booking request'', d)
      | Inr None \<Rightarrow> (failure 404 ''Listing not found'', d)
      | Inr (Some l) \<Rightarrow>
          if ownerId l = oid u then (failure 400 ''You cannot book your own listing'', d)
          else if find (\<lambda>b. listingId b = oid l \<and> tenantId b = oid u) (bookings d) \<noteq> None
            then (failure 400 ''You have already sent a request for this listing'', d)
          else
            let b = \<lparr>oid = newId, createdAt = now, updatedAt = now,
                     listingId = oid l, tenantId = oid u, bookingOwnerId = ownerId l,
                     status = ''Pending'', bookingMessage = messageOf messageB\<rparr>
            in if validateBooking b \<noteq> [] then (failure 500 ''Failed to create booking request'', d)
               else (succeed 201 ''Booking request sent successfully'' b,
                     d\<lparr>bookings := bookings d @ [b]\<rparr>))"

text \<open>\<^verbatim>\<open>populate\<close> joins the selected fields of the referenced document, or null.\<close>

type_synonym listingSummary = "objectId \<times> string \<times> string \<times> string list \<times> real"
type_synonym userSummary = "objectId \<times> string \<times> string"

definition populateListing :: "db \<Rightarrow> objectId \<Rightarrow> listingSummary option" where
  "populateListing d i =
     map_option (\<lambda>l. (oid l, title l, location l, images l, price l))
       (find (\<lambda>l. oid l = i) (listings d))"

definition populateUser :: "db \<Rightarrow> objectId \<Rightarrow> userSummary option" where
  "populateUser d i =
     map_option (\<lambda>u. (oid u, name u, email u)) (find (\<lambda>u. oid u = i) (users d))"

definition getOwnerBookings ::
  "db \<Rightarrow> user \<Rightarrow> (booking \<times> listingSummary option \<times> userSummary option) list response \<times> db" where
  "getOwnerBookings d u =
     (listed (map (\<lambda>b. (b, populateListing d (listingId b), populateUser d (tenantId b)))
                (sortNewestFirst (filter (\<lambda>b. bookingOwnerId b = oid u) (bookings d)))), d)"

text \<open>
  \<^verbatim>\<open>updateBookingStatus\<close>: the status is checked first, then the booking is looked up
  by its id and the caller's id together. The \<^verbatim>\<open>catch\<close> block has one branch.
\<close>

definition updateBookingStatus ::
  "nat \<Rightarrow> db \<Rightarrow> user \<Rightarrow> jsval \<Rightarrow> string \<Rightarrow> booking response \<times> db" where
  "updateBookingStatus now d u statusB i =
     (case statusB of
        JStr s \<Rightarrow>
          if s \<notin> set [''Accepted'', ''Rejected''] then (failure 400 ''Invalid status'', d)
          else (case castObjectId i of
                  None \<Rightarrow> (failure 500 ''Failed to update booking status'', d)
                | Some k \<Rightarrow>
                    (case find (\<lambda>b. oid b = k \<and> bookingOwnerId b = oid u) (bookings d) of
                       None \<Rightarrow> (failure 404 ''Booking not found'', d)
                     | Some b \<Rightarrow>
                         let b' = touch now b (b\<lparr>status := s\<rparr>)
                         in if validateBooking b' \<noteq> []
                            then (failure 500 ''Failed to update booking status'', d)
                            else (succeed 200 (''Booking request '' @ toLowerCase s) b',
                                  d\<lparr>bookings := replaceDoc b' (bookings d)\<rparr>)))
      | _ \<Rightarrow> (failure 400 ''Invalid status'', d))"

section \<open>Listing schema\<close>

text \<open>
  \<^verbatim>\<open>String.prototype.trim\<close> strips white space and line terminators. Of the code points
  U+0000 to U+00FF these are tab, line feed, vertical tab, form feed, carriage return,
  space and the no-break space U+00A0.
\<close>

definition isWhiteSpace :: "char \<Rightarrow> bool" where
  "isWhiteSpace c =
     (c \<in> set [CHR 0x09, CHR 0x0A, CHR 0x0B, CHR 0x0C, CHR 0x0D, CHR '' '', CHR 0xA0])"

definition trim :: "string \<Rightarrow> string" where
  "trim s = rev (dropWhile isWhiteSpace (rev (dropWhile isWhiteSpace s)))"

text \<open>\<^verbatim>\<open>messages.join(', ')\<close>\<close>

fun joinMessages :: "string list \<Rightarrow> string" where
  "joinMessages [] = []"
| "joinMessages [m] = m"
| "joinMessages (m # ms) = m @ '', '' @ joinMessages ms"

definition listingTypes :: "string list" where
  "listingTypes = [''Room'', ''Hostel'', ''Apartment'', ''Flat'']"

text \<open>
  The validators of models/listing.model.js, one message for each failing path in the
  order of the schema; on a path the \<^verbatim>\<open>required\<close> validator runs first and the first
  failure is reported. \<^verbatim>\<open>trim\<close> is a setter: it has run when a value is validated.
\<close>

definition validateTitle :: "string \<Rightarrow> string list" where
  "validateTitle t =
     (if t = [] then [''Title is required'']
      else if length t < 5 then [''Title must be at least 5 characters long'']
      else if length t > 100 then [''Title cannot exceed 100 characters'']
      else [])"

definition validateDescription :: "string \<Rightarrow> string list" where
  "validateDescription t =
     (if t = [] then [''Description is required'']
      else if length t < 20 then [''Description must be at least 20 characters long'']
      else if length t > 2000 then [''Description cannot exceed 2000 characters'']
      else [])"

definition validatePrice :: "real \<Rightarrow> string list" where
  "validatePrice p = (if p < 0 then [''Price must be a positive number''] else [])"

definition validateLocation :: "string \<Rightarrow> string list" where
  "validateLocation t = (if t = [] then [''Location is required''] else [])"

text \<open>
  \<^verbatim>\<open>latitude\<close> and \<^verbatim>\<open>longitude\<close> are not required: the path may be missing from a
  document or hold \<^verbatim>\<open>null\<close>, and \<^verbatim>\<open>min\<close> and \<^verbatim>\<open>max\<close> are checked on a number only.
\<close>

definition validateLatitude :: "real field \<Rightarrow> string list" where
  "validateLatitude x =
     (case x of
        Val v \<Rightarrow> (if v < - 90 \<or> v > 90 then [''Latitude must be between -90 and 90''] else [])
      | _ \<Rightarrow> [])"

definition validateLongitude :: "real field \<Rightarrow> string list" where
  "validateLongitude x =
     (case x of
        Val v \<Rightarrow> (if v < - 180 \<or> v > 180 then [''Longitude must be between -180 and 180''] else [])
      | _ \<Rightarrow> [])"

definition validateType :: "string \<Rightarrow> string list" where
  "validateType t =
     (if t = [] then [''Type is required'']
      else if t \<notin> set listingTypes then [''Type must be either Room, Hostel, Apartment, or Flat'']
      else [])"

definition validateImages :: "string list \<Rightarrow> string list" where
  "validateImages urls =
     (if list_all (\<lambda>url. length url > 0) urls then [] else [''All image URLs must be valid strings''])"

definition validateListing :: "listing \<Rightarrow> string list" where
  "validateListing l =
     validateTitle (title l) @ validateDescription (description l) @ validatePrice (price l)
     @ validateLocation (location l) @ validateLatitude (latitude l)
     @ validateLongitude (longitude l) @ validateType (type l) @ validateImages (images l)"

section \<open>Listing controller\<close>

text \<open>
  The body of \<^verbatim>\<open>POST /api/listings\<close> and \<^verbatim>\<open>PUT /api/listings/:id\<close>:
  \<^verbatim>\<open>{ title, description, price, location, latitude, longitude, type, images }\<close>.
\<close>

record listingBody =
  bodyTitle :: "string field"
  bodyDescription :: "string field"
  bodyPrice :: "real field"
  bodyLocation :: "string field"
  bodyLatitude :: "real field"
  bodyLongitude :: "real field"
  bodyType :: "string field"
  bodyImages :: "string list field"

text \<open>\<^verbatim>\<open>price <= 0\<close>: null converts to 0, undefined to NaN, and a comparison with NaN is false.\<close>

fun leZero :: "real field \<Rightarrow> bool" where
  "leZero (Val p) = (p \<le> 0)"
| "leZero Null = True"
| "leZero Absent = False"

text \<open>
  What Mongoose stores on a string path for a body value: a string is trimmed by the
  path's setter; null and undefined leave the path empty.
\<close>

fun strOf :: "string field \<Rightarrow> string" where
  "strOf (Val s) = trim s"
| "strOf _ = []"

text \<open>A string path without a setter (\<^verbatim>\<open>type\<close>, \<^verbatim>\<open>role\<close>, \<^verbatim>\<open>password\<close>) keeps the string as it is.\<close>

fun rawOf :: "string field \<Rightarrow> string" where
  "rawOf (Val s) = s"
| "rawOf _ = []"

fun numOf :: "real field \<Rightarrow> real" where
  "numOf (Val p) = p"
| "numOf _ = 0"

text \<open>\<^verbatim>\<open>images || []\<close>\<close>

fun imagesOrEmpty :: "string list field \<Rightarrow> string list" where
  "imagesOrEmpty (Val xs) = xs"
| "imagesOrEmpty _ = []"

text \<open>\<^verbatim>\<open>[..].includes(type)\<close> for the list of the four types.\<close>

fun includesType :: "string field \<Rightarrow> bool" where
  "includesType (Val s) = (s \<in> set listingTypes)"
| "includesType _ = False"

text \<open>The \<^verbatim>\<open>catch\<close> block of \<^verbatim>\<open>createListing\<close>.\<close>

fun createListingCatch :: "error \<Rightarrow> 'a response" where
  "createListingCatch (ValidationError msgs) = failure 400 (joinMessages msgs)"
| "createListingCatch _ = failure 500 ''Failed to create listing. Please try again.''"

text \<open>\<^verbatim>\<open>Listing.create(..)\<close>: validates, then inserts.\<close>

definition Listing_create :: "db \<Rightarrow> listing \<Rightarrow> error + (listing \<times> db)" where
  "Listing_create d l =
     (if validateListing l \<noteq> [] then Inl (ValidationError (validateListing l))
      else Inr (l, d\<lparr>listings := listings d @ [l]\<rparr>))"

definition createListing ::
  "nat \<Rightarrow> objectId \<Rightarrow> db \<Rightarrow> user \<Rightarrow> listingBody \<Rightarrow> listing response \<times> db" where
  "createListing now newId d u b =
     (if \<not> truthyStr (bodyTitle b) \<or> \<not> truthyStr (bodyDescription b) \<or> \<not> truthyNum (bodyPrice b)
         \<or> \<not> truthyStr (bodyLocation b) \<or> \<not> truthyStr (bodyType b)
      then (failure 400 ''Please provide all required fields: title, description, price, location, type'', d)
      else if leZero (bodyPrice b) then (failure 400 ''Price must be a positive number'', d)
      else if \<not> includesType (bodyType b)
        then (failure 400 ''Type must be either Room, Hostel, Apartment, or Flat'', d)
      else
        (case Listing_create d
                \<lparr>oid = newId, createdAt = now, updatedAt = now,
                 title = strOf (bodyTitle b), description = strOf (bodyDescription b),
                 price = numOf (bodyPrice b), location = strOf (bodyLocation b),
                 latitude = bodyLatitude b, longitude = bodyLongitude b,
                 type = rawOf (bodyType b), images = imagesOrEmpty (bodyImages b),
                 ownerId = oid u, isApproved = True, versionKey = 0\<rparr> of
           Inl e \<Rightarrow> (createListingCatch e, d)
         | Inr (l, d') \<Rightarrow> (succeed 201 ''Listing created successfully'' l, d')))"

definition getOwnerListings :: "db \<Rightarrow> user \<Rightarrow> listing list response \<times> db" where
  "getOwnerListings d u =
     (listed (sortNewestFirst (filter (\<lambda>l. ownerId l = oid u) (listings d))), d)"

definition populateOwner :: "db \<Rightarrow> listing \<Rightarrow> listing \<times> userSummary option" where
  "populateOwner d l = (l, populateUser d (ownerId l))"

definition getAdminListings :: "db \<Rightarrow> (listing \<times> userSummary option) list response \<times> db" where
  "getAdminListings d = (listed (map (populateOwner d) (sortNewestFirst (listings d))), d)"

text \<open>The \<^verbatim>\<open>catch\<close> block of \<^verbatim>\<open>getListingById\<close>.\<close>

fun getListingByIdCatch :: "error \<Rightarrow> 'a response" where
  "getListingByIdCatch CastError = failure 400 ''Invalid listing ID''"
| "getListingByIdCatch _ = failure 500 ''Failed to fetch listing details''"

definition getListingById :: "db \<Rightarrow> string \<Rightarrow> (listing \<times> userSummary option) response \<times> db" where
  "getListingById d i =
     (case findById (listings d) i of
        Inl e \<Rightarrow> (getListingByIdCatch e, d)
      | Inr None \<Rightarrow> (failure 404 ''Listing not found'', d)
      | Inr (Some l) \<Rightarrow> (found (populateOwner d l), d))"

text \<open>
  \<^verbatim>\<open>updateListingStatus\<close>: \<^verbatim>\<open>findByIdAndUpdate\<close> casts the id, sets the flag and the
  \<^verbatim>\<open>updatedAt\<close> timestamp. The \<^verbatim>\<open>catch\<close> block has one branch.
\<close>

definition updateListingStatus ::
  "nat \<Rightarrow> db \<Rightarrow> jsval \<Rightarrow> string \<Rightarrow> listing response \<times> db" where
  "updateListingStatus now d isApprovedB i =
     (case isApprovedB of
        JBool a \<Rightarrow>
          (case findById (listings d) i of
             Inl e \<Rightarrow> (failure 500 ''Failed to update listing status'', d)
           | Inr None \<Rightarrow> (failure 404 ''Listing not found'', d)
           | Inr (Some l) \<Rightarrow>
               let l' = l\<lparr>isApproved := a, updatedAt := now\<rparr>
               in (succeed 200 (''Listing '' @ (if a then ''approved'' else ''rejected'') @ '' successfully'') l',
                   d\<lparr>listings := replaceDoc l' (listings d)\<rparr>))
      | _ \<Rightarrow> (failure 400 ''Invalid status provided'', d))"

text \<open>The \<^verbatim>\<open>catch\<close> block of \<^verbatim>\<open>updateListing\<close>.\<close>

fun updateListingCatch :: "error \<Rightarrow> 'a response" where
  "updateListingCatch (ValidationError msgs) = failure 400 (joinMessages msgs)"
| "updateListingCatch CastError = failure 400 ''Invalid listing ID''"
| "updateListingCatch _ = failure 500 ''Failed to update listing. Please try again.''"

text \<open>
  Step 5 of \<^verbatim>\<open>updateListing\<close>: the eight conditional assignments, in the order of the
  source. Six of them test the truthiness of the value; those of \<^verbatim>\<open>latitude\<close> and
  \<^verbatim>\<open>longitude\<close> test \<^verbatim>\<open>!== undefined\<close>, so that 0 and \<^verbatim>\<open>null\<close> are assigned.
\<close>

definition assignFields :: "listing \<Rightarrow> listingBody \<Rightarrow> listing" where
  "assignFields l b =
     (let l1 = (if truthyStr (bodyTitle b) then l\<lparr>title := strOf (bodyTitle b)\<rparr> else l);
          l2 = (if truthyStr (bodyDescription b) then l1\<lparr>description := strOf (bodyDescription b)\<rparr> else l1);
          l3 = (if truthyNum (bodyPrice b) then l2\<lparr>price := numOf (bodyPrice b)\<rparr> else l2);
          l4 = (if truthyStr (bodyLocation b) then l3\<lparr>location := strOf (bodyLocation b)\<rparr> else l3);
          l5 = (if bodyLatitude b \<noteq> Absent then l4\<lparr>latitude := bodyLatitude b\<rparr> else l4);
          l6 = (if bodyLongitude b \<noteq> Absent then l5\<lparr>longitude := bodyLongitude b\<rparr> else l5);
          l7 = (if truthyStr (bodyType b) then l6\<lparr>type := rawOf (bodyType b)\<rparr> else l6);
          l8 = (if truthyArr (bodyImages b) then l7\<lparr>images := imagesOrEmpty (bodyImages b)\<rparr> else l7)
      in l8)"

text \<open>
  The messages of \<^verbatim>\<open>listing.save()\<close> for the loaded document \<open>old\<close> after the
  assignments. Mongoose validates the paths that were loaded and not modified first, in
  the order of the document, then the modified paths in the order of the assignments,
  and \<^verbatim>\<open>error.errors\<close> keeps that order. Each pair holds whether the path is
  unmodified, and the messages of its validators.
\<close>

definition saveMessages :: "listing \<Rightarrow> listing \<Rightarrow> string list" where
  "saveMessages old new =
     (let paths =
            [(title new = title old, validateTitle (title new)),
             (description new = description old, validateDescription (description new)),
             (price new = price old, validatePrice (price new)),
             (location new = location old, validateLocation (location new)),
             (latitude new = latitude old, validateLatitude (latitude new)),
             (longitude new = longitude old, validateLongitude (longitude new)),
             (type new = type old, validateType (type new)),
             (images new = images old, validateImages (images new))]
      in concat (map snd (filter fst paths)) @ concat (map snd (filter (\<lambda>p. \<not> fst p) paths)))"

text \<open>
  What \<^verbatim>\<open>listing.save()\<close> writes for the loaded document \<open>old\<close> after the assignments.
  A path is modified when its new value differs from the loaded one; \<^verbatim>\<open>updatedAt\<close> is
  set when some path is modified, and the version key is incremented when \<^verbatim>\<open>images\<close>
  is.
\<close>

definition savedListing :: "nat \<Rightarrow> listing \<Rightarrow> listing \<Rightarrow> listing" where
  "savedListing now old new =
     (let l1 = touch now old new
      in if images new \<noteq> images old then l1\<lparr>versionKey := versionKey old + 1\<rparr> else l1)"

text \<open>
  \<^verbatim>\<open>listing.save()\<close> of the loaded document \<open>old\<close> after the assignments: validates
  the paths of the document, then writes.
\<close>

definition Listing_save :: "nat \<Rightarrow> db \<Rightarrow> listing \<Rightarrow> listing \<Rightarrow> error + (listing \<times> db)" where
  "Listing_save now d old new =
     (if saveMessages old new \<noteq> [] then Inl (ValidationError (saveMessages old new))
      else let l' = savedListing now old new
           in Inr (l', d\<lparr>listings := replaceDoc l' (listings d)\<rparr>))"

definition updateListing ::
  "nat \<Rightarrow> db \<Rightarrow> user \<Rightarrow> string \<Rightarrow> listingBody \<Rightarrow> listing response \<times> db" where
  "updateListing now d u i b =
     (case findById (listings d) i of
        Inl e \<Rightarrow> (updateListingCatch e, d)
      | Inr None \<Rightarrow> (failure 404 ''Listing not found'', d)
      | Inr (Some l) \<Rightarrow>
          if ownerId l \<noteq> oid u
            then (failure 403 ''You are not authorized to update this listing'', d)
          else if bodyPrice b \<noteq> Absent \<and> leZero (bodyPrice b)
            then (failure 400 ''Price must be a positive number'', d)
          else if truthyStr (bodyType b) \<and> \<not> includesType (bodyType b)
            then (failure 400 ''Type must be either Room, Hostel, Apartment, or Flat'', d)
          else
            (case Listing_save now d l (assignFields l b) of
               Inl e \<Rightarrow> (updateListingCatch e, d)
             | Inr (l', d') \<Rightarrow> (succeed 200 ''Listing updated successfully'' l', d')))"

text \<open>\<^verbatim>\<open>String.prototype.split\<close> at a one-character separator: never an empty array.\<close>

fun split :: "char \<Rightarrow> string \<Rightarrow> string list" where
  "split c [] = [[]]"
| "split c (x # xs) =
     (if x = c then [] # split c xs
      else (case split c xs of
              w # ws \<Rightarrow> (x # w) # ws
            | [] \<Rightarrow> [[x]]))"

text \<open>
  \<^verbatim>\<open>getPublicIdFromUrl\<close>: the last segment of the URL up to its first dot, under the
  folder of the uploads. For a string the \<^verbatim>\<open>try\<close> block never throws.
\<close>

definition getPublicIdFromUrl :: "string \<Rightarrow> string option" where
  "getPublicIdFromUrl url =
     (let splitUrl = split CHR ''/'' url;
          filename = last splitUrl;
          publicId = (case split CHR ''.'' filename of p # _ \<Rightarrow> p | [] \<Rightarrow> [])
      in Some (''gharsathi/listings/'' @ publicId))"

text \<open>The \<^verbatim>\<open>catch\<close> block of \<^verbatim>\<open>deleteListing\<close>.\<close>

fun deleteListingCatch :: "error \<Rightarrow> 'a response" where
  "deleteListingCatch CastError = failure 400 ''Invalid listing ID''"
| "deleteListingCatch _ = failure 500 ''Failed to delete listing. Please try again.''"

definition deleted :: "string \<Rightarrow> unit response" where
  "deleted m = \<lparr>httpStatus = 200, success = True, message = Some m, count = None, data = None\<rparr>"

text \<open>
  \<^verbatim>\<open>deleteListing\<close>. \<open>destroyOk p\<close> says whether the promise of
  \<^verbatim>\<open>cloudinary.uploader.destroy(p)\<close> resolves. \<^verbatim>\<open>images.map\<close> starts every deletion before
  \<^verbatim>\<open>Promise.all\<close> is awaited, so each deletion that resolves takes effect; when one
  rejects, the \<^verbatim>\<open>await\<close> throws into the \<^verbatim>\<open>catch\<close> block and
  \<^verbatim>\<open>Listing.findByIdAndDelete\<close> is not reached.
\<close>

definition deleteListing ::
  "(string \<Rightarrow> bool) \<Rightarrow> db \<Rightarrow> user \<Rightarrow> string \<Rightarrow> unit response \<times> db" where
  "deleteListing destroyOk d u i =
     (case findById (listings d) i of
        Inl e \<Rightarrow> (deleteListingCatch e, d)
      | Inr None \<Rightarrow> (failure 404 ''Listing not found'', d)
      | Inr (Some l) \<Rightarrow>
          if ownerId l \<noteq> oid u
            then (failure 403 ''You are not authorized to delete this listing'', d)
          else
            let publicIds = List.map_filter getPublicIdFromUrl (images l);
                d1 = d\<lparr>cloud := cloud d - set (filter destroyOk publicIds)\<rparr>
            in if \<not> list_all destroyOk publicIds
               then (deleteListingCatch OtherError, d1)
               else (deleted ''Listing deleted successfully'',
                     d1\<lparr>listings := filter (\<lambda>x. oid x \<noteq> oid l) (listings d1)\<rparr>))"

text \<open>
  \<^verbatim>\<open>getAllListings\<close>. The values of \<^verbatim>\<open>req.query\<close> are strings or absent. Two
  built-ins are parameters:
  \<^item> \<open>regExp p\<close> is \<^verbatim>\<open>new RegExp(p, 'i')\<close>: \<open>None\<close> when the constructor throws a
    SyntaxError, otherwise the test whether the expression matches somewhere in a string;
  \<^item> \<open>toNumber s\<close> is \<^verbatim>\<open>Number(s)\<close>: \<open>None\<close> for NaN.
\<close>

record listingFilters =
  queryType :: "string option"
  queryMinPrice :: "string option"
  queryMaxPrice :: "string option"
  querySearch :: "string option"

fun truthyQuery :: "string option \<Rightarrow> bool" where
  "truthyQuery (Some s) = (s \<noteq> [])"
| "truthyQuery None = False"

fun queryString :: "string option \<Rightarrow> string" where
  "queryString (Some s) = s"
| "queryString None = []"

text \<open>The filter object handed to \<^verbatim>\<open>Listing.find\<close>; a price bound \<open>Some None\<close> is NaN.\<close>

record listingQuery =
  q_isApproved :: bool
  q_type :: "string option"
  q_price_gte :: "real option option"
  q_price_lte :: "real option option"
  q_or :: "(string \<Rightarrow> bool) option"

definition buildQuery ::
  "(string \<Rightarrow> (string \<Rightarrow> bool) option) \<Rightarrow> (string \<Rightarrow> real option) \<Rightarrow> listingFilters
     \<Rightarrow> error + listingQuery" where
  "buildQuery regExp toNumber f =
     (let q0 = \<lparr>q_isApproved = True, q_type = None, q_price_gte = None, q_price_lte = None, q_or = None\<rparr>;
          q1 = (if truthyQuery (queryType f) \<and> queryString (queryType f) \<noteq> ''All''
                then q0\<lparr>q_type := Some (queryString (queryType f))\<rparr> else q0);
          q2 = (if truthyQuery (queryMinPrice f) \<or> truthyQuery (queryMaxPrice f)
                then q1\<lparr>q_price_gte := (if truthyQuery (queryMinPrice f)
                                            then Some (toNumber (queryString (queryMinPrice f))) else None),
                        q_price_lte := (if truthyQuery (queryMaxPrice f)
                                            then Some (toNumber (queryString (queryMaxPrice f))) else None)\<rparr>
                else q1)
      in if truthyQuery (querySearch f)
         then (case regExp (queryString (querySearch f)) of
                 None \<Rightarrow> Inl OtherError
               | Some searchRegex \<Rightarrow> Inr (q2\<lparr>q_or := Some searchRegex\<rparr>))
         else Inr q2)"

text \<open>Whether a listing satisfies the filter object.\<close>

definition satisfies :: "listingQuery \<Rightarrow> listing \<Rightarrow> bool" where
  "satisfies q l =
     (isApproved l = q_isApproved q
      \<and> (case q_type q of None \<Rightarrow> True | Some t \<Rightarrow> type l = t)
      \<and> (case q_price_gte q of Some (Some lo) \<Rightarrow> lo \<le> price l | _ \<Rightarrow> True)
      \<and> (case q_price_lte q of Some (Some hi) \<Rightarrow> price l \<le> hi | _ \<Rightarrow> True)
      \<and> (case q_or q of None \<Rightarrow> True | Some re \<Rightarrow> re (title l) \<or> re (location l)))"

text \<open>\<^verbatim>\<open>Listing.find(query)\<close>: Mongoose casts the filter first and throws a CastError for a NaN on a Number path.\<close>

definition Listing_find :: "db \<Rightarrow> listingQuery \<Rightarrow> error + listing list" where
  "Listing_find d q =
     (if q_price_gte q = Some None \<or> q_price_lte q = Some None then Inl CastError
      else Inr (filter (satisfies q) (listings d)))"

definition getAllListings ::
  "(string \<Rightarrow> (string \<Rightarrow> bool) option) \<Rightarrow> (string \<Rightarrow> real option) \<Rightarrow> db \<Rightarrow> listingFilters
     \<Rightarrow> (listing \<times> userSummary option) list response \<times> db" where
  "getAllListings regExp toNumber d f =
     (case buildQuery regExp toNumber f of
        Inl e \<Rightarrow> (failure 500 ''Failed to fetch listings. Please try again.'', d)
      | Inr q \<Rightarrow>
          (case Listing_find d q of
             Inl e \<Rightarrow> (failure 500 ''Failed to fetch listings. Please try again.'', d)
           | Inr ls \<Rightarrow> (listed (map (populateOwner d) (sortNewestFirst ls)), d)))"

section \<open>Regular expressions of the schemas\<close>

text \<open>
  The pattern of the \<^verbatim>\<open>match\<close> validator is a regular expression without
  back-references or look-around, anchored at both ends: \<^verbatim>\<open>test\<close> is membership of
  the whole string in its language, decided here with derivatives.
\<close>

datatype rexp =
    Zero
  | One
  | Atom "char list"
  | Alt rexp rexp
  | Seq rexp rexp
  | Star rexp

fun nullable :: "rexp \<Rightarrow> bool" where
  "nullable Zero = False"
| "nullable One = True"
| "nullable (Atom cs) = False"
| "nullable (Alt r s) = (nullable r \<or> nullable s)"
| "nullable (Seq r s) = (nullable r \<and> nullable s)"
| "nullable (Star r) = True"

fun alt :: "rexp \<Rightarrow> rexp \<Rightarrow> rexp" where
  "alt Zero s = s"
| "alt r Zero = r"
| "alt r s = Alt r s"

fun seq :: "rexp \<Rightarrow> rexp \<Rightarrow> rexp" where
  "seq Zero s = Zero"
| "seq One s = s"
| "seq r s = Seq r s"

fun deriv :: "char \<Rightarrow> rexp \<Rightarrow> rexp" where
  "deriv c Zero = Zero"
| "deriv c One = Zero"
| "deriv c (Atom cs) = (if c \<in> set cs then One else Zero)"
| "deriv c (Alt r s) = alt (deriv c r) (deriv c s)"
| "deriv c (Seq r s) =
     (if nullable r then alt (seq (deriv c r) s) (deriv c s) else seq (deriv c r) s)"
| "deriv c (Star r) = seq (deriv c r) (Star r)"

fun test :: "rexp \<Rightarrow> string \<Rightarrow> bool" where
  "test r [] = nullable r"
| "test r (c # cs) = test (deriv c r) cs"

text \<open>The language of a pattern, against which the matcher is checked below.\<close>

definition conc :: "string set \<Rightarrow> string set \<Rightarrow> string set" where
  "conc A B = {u @ v | u v. u \<in> A \<and> v \<in> B}"

inductive_set kleene :: "string set \<Rightarrow> string set" for A :: "string set" where
  kleene_empty: "[] \<in> kleene A"
| kleene_step: "u \<in> A \<Longrightarrow> v \<in> kleene A \<Longrightarrow> u @ v \<in> kleene A"

fun lang :: "rexp \<Rightarrow> string set" where
  "lang Zero = {}"
| "lang One = {[]}"
| "lang (Atom cs) = {[c] | c. c \<in> set cs}"
| "lang (Alt r s) = lang r \<union> lang s"
| "lang (Seq r s) = conc (lang r) (lang s)"
| "lang (Star r) = kleene (lang r)"

definition oneOrMore :: "rexp \<Rightarrow> rexp" where
  "oneOrMore r = Seq r (Star r)"

definition optional :: "rexp \<Rightarrow> rexp" where
  "optional r = Alt One r"

text \<open>\<^verbatim>\<open>\w\<close>\<close>

definition wordChar :: rexp where
  "wordChar = Atom ''abcdefghijklmnopqrstuvwxyzABCDEFGHIJKLMNOPQRSTUVWXYZ0123456789_''"

text \<open>\<^verbatim>\<open>/^\w+([\.-]?\w+)*@\w+([\.-]?\w+)*(\.\w{2,3})+$/\<close>\<close>

definition emailPattern :: rexp where
  "emailPattern =
     (let part = Seq (oneOrMore wordChar) (Star (Seq (optional (Atom ''.-'')) (oneOrMore wordChar)))
      in Seq part (Seq (Atom ''@'') (Seq part
           (oneOrMore (Seq (Atom ''.'') (Seq wordChar (Seq wordChar (optional wordChar))))))))"

section \<open>User schema\<close>

definition validateName :: "string \<Rightarrow> string list" where
  "validateName n =
     (if n = [] then [''Name is required'']
      else if length n < 2 then [''Name must be at least 2 characters long'']
      else if length n > 50 then [''Name cannot exceed 50 characters'']
      else [])"

definition validateEmail :: "string \<Rightarrow> string list" where
  "validateEmail e =
     (if e = [] then [''Email is required'']
      else if \<not> test emailPattern e then [''Please provide a valid email address'']
      else [])"

definition validatePassword :: "string \<Rightarrow> string list" where
  "validatePassword p =
     (if p = [] then [''Password is required'']
      else if length p < 6 then [''Password must be at least 6 characters long'']
      else [])"

definition validRoles :: "string list" where
  "validRoles = [''Tenant'', ''Owner'', ''Admin'']"

definition validateRole :: "string \<Rightarrow> string list" where
  "validateRole r =
     (if r = [] then [''Role is required'']
      else if r \<notin> set validRoles then [''Role must be either Tenant, Owner, or Admin'']
      else [])"

definition validateUser :: "user \<Rightarrow> string list" where
  "validateUser u =
     validateName (name u) @ validateEmail (email u) @ validatePassword (password u)
     @ validateRole (role u)"

text \<open>
  \<^verbatim>\<open>User.findOne({ email })\<close>: the setters of the path (\<^verbatim>\<open>lowercase\<close>, \<^verbatim>\<open>trim\<close>) run
  on the value of the filter as they do on a stored value.
\<close>

definition User_findOne :: "db \<Rightarrow> string \<Rightarrow> user option" where
  "User_findOne d e = find (\<lambda>u. email u = trim (toLowerCase e)) (users d)"

text \<open>
  \<^verbatim>\<open>User.create(..)\<close>: the setters, the validators on the plain password, the
  \<^verbatim>\<open>pre('save')\<close> hook that replaces the password by its hash, and the insert under
  the unique index on \<^verbatim>\<open>email\<close>. \<open>bcryptHash\<close> is \<^verbatim>\<open>bcrypt.hash\<close> with its salt.
\<close>

definition User_create ::
  "(string \<Rightarrow> string) \<Rightarrow> nat \<Rightarrow> objectId \<Rightarrow> db \<Rightarrow> string \<Rightarrow> string \<Rightarrow> string \<Rightarrow> string
     \<Rightarrow> error + (user \<times> db)" where
  "User_create bcryptHash now newId d n e p r =
     (let u = \<lparr>oid = newId, createdAt = now, updatedAt = now,
               name = trim n, email = trim (toLowerCase e), password = p, role = r\<rparr>
      in if validateUser u \<noteq> [] then Inl (ValidationError (validateUser u))
         else if find (\<lambda>x. email x = email u) (users d) \<noteq> None then Inl DuplicateKey
         else let u' = u\<lparr>password := bcryptHash p\<rparr>
              in Inr (u', d\<lparr>users := users d @ [u']\<rparr>))"

section \<open>Authentication controller\<close>

text \<open>The \<^verbatim>\<open>user\<close> object of the two responses, and the token beside it.\<close>

type_synonym authData = "(objectId \<times> string \<times> string \<times> string) \<times> string"

definition authData :: "(objectId \<Rightarrow> string) \<Rightarrow> user \<Rightarrow> authData" where
  "authData generateToken u = ((oid u, name u, email u, role u), generateToken (oid u))"

text \<open>The \<^verbatim>\<open>catch\<close> block of \<^verbatim>\<open>register\<close>; the duplicate key error has code 11000.\<close>

fun registerCatch :: "error \<Rightarrow> 'a response" where
  "registerCatch (ValidationError msgs) = failure 400 (joinMessages msgs)"
| "registerCatch DuplicateKey = failure 400 ''Email already registered. Please login instead.''"
| "registerCatch _ = failure 500 ''Registration failed. Please try again.''"

record registerBody =
  bodyName :: "string field"
  bodyEmail :: "string field"
  bodyPassword :: "string field"
  bodyRole :: "string field"

text \<open>
  \<^verbatim>\<open>register\<close>. \<open>generateToken\<close> is \<^verbatim>\<open>jwt.sign\<close> with the secret and the expiry. The
  function takes no caller: the route is \<^verbatim>\<open>router.post('/register', register)\<close>,
  without \<^verbatim>\<open>protect\<close>.
\<close>

definition register ::
  "(string \<Rightarrow> string) \<Rightarrow> (objectId \<Rightarrow> string) \<Rightarrow> nat \<Rightarrow> objectId \<Rightarrow> db \<Rightarrow> registerBody
     \<Rightarrow> authData response \<times> db" where
  "register bcryptHash generateToken now newId d b =
     (if \<not> truthyStr (bodyName b) \<or> \<not> truthyStr (bodyEmail b) \<or> \<not> truthyStr (bodyPassword b)
        then (failure 400 ''Please provide name, email, and password'', d)
      else if length (rawOf (bodyPassword b)) < 6
        then (failure 400 ''Password must be at least 6 characters long'', d)
      else if User_findOne d (toLowerCase (rawOf (bodyEmail b))) \<noteq> None
        then (failure 400 ''Email already registered. Please login instead.'', d)
      else
        let userRole = (if truthyStr (bodyRole b) then rawOf (bodyRole b) else ''Tenant'')
        in if userRole \<notin> set validRoles
             then (failure 400 ''Invalid role. Must be Tenant, Owner, or Admin'', d)
           else
             (case User_create bcryptHash now newId d (rawOf (bodyName b))
                     (toLowerCase (rawOf (bodyEmail b))) (rawOf (bodyPassword b)) userRole of
                Inl e \<Rightarrow> (registerCatch e, d)
              | Inr (u, d') \<Rightarrow> (succeed 201 ''Registration successful'' (authData generateToken u), d')))"

text \<open>
  \<^verbatim>\<open>login\<close>. The email and the password are the values of the body as they come: the
  controller tests their truthiness and compares them with \<^verbatim>\<open>===\<close>. The first step
  after the presence check is the development shortcut that creates the administrator.
  \<^verbatim>\<open>email.toLowerCase()\<close> throws a TypeError for an email that is not a string.
  \<open>bcryptCompare p h\<close> is \<^verbatim>\<open>bcrypt.compare\<close> of a plain password with a stored hash;
  for a candidate that is not a string \<^verbatim>\<open>bcrypt.compare\<close> rejects and
  \<^verbatim>\<open>comparePassword\<close> throws. Every throw ends in the \<^verbatim>\<open>catch\<close> block, which has one
  branch.
\<close>

definition login ::
  "(string \<Rightarrow> string) \<Rightarrow> (string \<Rightarrow> string \<Rightarrow> bool) \<Rightarrow> (objectId \<Rightarrow> string) \<Rightarrow> nat \<Rightarrow> objectId \<Rightarrow> db
     \<Rightarrow> jsval \<Rightarrow> jsval \<Rightarrow> authData response \<times> db" where
  "login bcryptHash bcryptCompare generateToken now newId d emailB passwordB =
     (if \<not> truthy emailB \<or> \<not> truthy passwordB
        then (failure 400 ''Please provide email and password'', d)
      else
        (case (if emailB = JStr ''admin@gharsathi.com'' \<and> passwordB = JStr ''admin123''
                  \<and> User_findOne d ''admin@gharsathi.com'' = None
               then map_sum id snd
                      (User_create bcryptHash now newId d ''System Admin'' ''admin@gharsathi.com''
                         ''admin123'' ''Admin'')
               else Inr d) of
           Inl e \<Rightarrow> (failure 500 ''Login failed. Please try again.'', d)
         | Inr d1 \<Rightarrow>
             (case asString emailB of
                None \<Rightarrow> (failure 500 ''Login failed. Please try again.'', d1)
              | Some e \<Rightarrow>
                  (case User_findOne d1 (toLowerCase e) of
                     None \<Rightarrow> (failure 401 ''Invalid email or password'', d1)
                   | Some u \<Rightarrow>
                       (case asString passwordB of
                          None \<Rightarrow> (failure 500 ''Login failed. Please try again.'', d1)
                        | Some p \<Rightarrow>
                            if \<not> bcryptCompare p (password u)
                              then (failure 401 ''Invalid email or password'', d1)
                            else (succeed 200 ''Login successful'' (authData generateToken u), d1))))))"

section \<open>Upload controller\<close>

text \<open>
  \<^verbatim>\<open>uploadImages\<close>. \<open>uploadStream f\<close> is the upload of one file: \<open>None\<close> when the
  promise rejects, otherwise the public id under which the image is stored and its
  secure URL. Every upload is started before \<^verbatim>\<open>Promise.all\<close> is awaited.
\<close>

definition uploadImages ::
  "(string \<Rightarrow> (string \<times> string) option) \<Rightarrow> db \<Rightarrow> string list option \<Rightarrow> string list response \<times> db" where
  "uploadImages uploadStream d files =
     (case files of
        None \<Rightarrow> (failure 400 ''No image files provided'', d)
      | Some fs \<Rightarrow>
          if length fs = 0 then (failure 400 ''No image files provided'', d)
          else
            let results = map uploadStream fs;
                d1 = d\<lparr>cloud := cloud d \<union> set (map fst (List.map_filter id results))\<rparr>
            in if \<not> list_all (\<lambda>r. r \<noteq> None) results
               then (failure 500 ''Failed to upload images. Please try again.'', d1)
               else
                 let imageUrls = map snd (List.map_filter id results)
                 in (\<lparr>httpStatus = 200, success = True, message = Some ''Images uploaded successfully'',
                      count = Some (length imageUrls), data = Some imageUrls\<rparr>, d1))"

section \<open>The operations of the API\<close>

text \<open>The services outside the repository that the controllers call.\<close>

record services =
  svHash :: "string \<Rightarrow> string"
  svCompare :: "string \<Rightarrow> string \<Rightarrow> bool"
  svToken :: "objectId \<Rightarrow> string"
  svRegExp :: "string \<Rightarrow> (string \<Rightarrow> bool) option"
  svNumber :: "string \<Rightarrow> real option"
  svDestroy :: "string \<Rightarrow> bool"
  svUpload :: "string \<Rightarrow> (string \<times> string) option"

text \<open>
  One constructor for each controller that reads or writes the store, with the time and
  the fresh ObjectId of the request where the controller needs them, and the user that
  \<^verbatim>\<open>protect\<close> has put into \<^verbatim>\<open>req.user\<close>.
\<close>

datatype operation =
    Register nat objectId registerBody
  | Login nat objectId jsval jsval
  | CreateListing nat objectId user listingBody
  | GetOwnerListings user
  | GetAllListings listingFilters
  | GetListingById string
  | UpdateListing nat user string listingBody
  | DeleteListing user string
  | GetAdminListings
  | UpdateListingStatus nat jsval string
  | UploadImages "string list option"
  | CreateBooking nat objectId user "string field" "string field"
  | GetOwnerBookings user
  | UpdateBookingStatus nat user jsval string

text \<open>The store after an operation.\<close>

fun perform :: "services \<Rightarrow> db \<Rightarrow> operation \<Rightarrow> db" where
  "perform sv d (Register now newId b) = snd (register (svHash sv) (svToken sv) now newId d b)"
| "perform sv d (Login now newId e p) =
     snd (login (svHash sv) (svCompare sv) (svToken sv) now newId d e p)"
| "perform sv d (CreateListing now newId u b) = snd (createListing now newId d u b)"
| "perform sv d (GetOwnerListings u) = snd (getOwnerListings d u)"
| "perform sv d (GetAllListings f) = snd (getAllListings (svRegExp sv) (svNumber sv) d f)"
| "perform sv d (GetListingById i) = snd (getListingById d i)"
| "perform sv d (UpdateListing now u i b) = snd (updateListing now d u i b)"
| "perform sv d (DeleteListing u i) = snd (deleteListing (svDestroy sv) d u i)"
| "perform sv d GetAdminListings = snd (getAdminListings d)"
| "perform sv d (UpdateListingStatus now a i) = snd (updateListingStatus now d a i)"
| "perform sv d (UploadImages fs) = snd (uploadImages (svUpload sv) d fs)"
| "perform sv d (CreateBooking now newId u l m) = snd (createBooking now newId d u l m)"
| "perform sv d (GetOwnerBookings u) = snd (getOwnerBookings d u)"
| "perform sv d (UpdateBookingStatus now u s i) = snd (updateBookingStatus now d u s i)"

section \<open>Sample data\<close>

definition sampleOwner :: user where
  "sampleOwner =
     \<lparr>oid = ''aaaaaaaaaaaaaaaaaaaaaaa1'', createdAt = 1, updatedAt = 1, name = ''Omar Owner'',
      email = ''omar@example.com'', password = ''hash:secret1'', role = ''Owner''\<rparr>"

definition otherOwner :: user where
  "otherOwner =
     \<lparr>oid = ''aaaaaaaaaaaaaaaaaaaaaaa2'', createdAt = 2, updatedAt = 2, name = ''Rita Rival'',
      email = ''rita@example.com'', password = ''hash:secret2'', role = ''Owner''\<rparr>"

definition sampleTenant :: user where
  "sampleTenant =
     \<lparr>oid = ''aaaaaaaaaaaaaaaaaaaaaaa3'', createdAt = 3, updatedAt = 3, name = ''Tara Tenant'',
      email = ''tara@example.com'', password = ''hash:secret3'', role = ''Tenant''\<rparr>"

definition sampleListing :: listing where
  "sampleListing =
     \<lparr>oid = ''bbbbbbbbbbbbbbbbbbbbbbb1'', createdAt = 4, updatedAt = 4,
      title = ''Cozy room in Thamel'', description = ''A bright and quiet room near the market'',
      price = 1000, location = ''Kathmandu'', latitude = Absent, longitude = Absent,
      type = ''Room'',
      images = [''https://res.cloudinary.com/demo/image/upload/v1/gharsathi/listings/abc.jpg''],
      ownerId = ''aaaaaaaaaaaaaaaaaaaaaaa1'', isApproved = True, versionKey = 0\<rparr>"

definition sampleBooking :: booking where
  "sampleBooking =
     \<lparr>oid = ''ccccccccccccccccccccccc1'', createdAt = 5, updatedAt = 6,
      listingId = ''bbbbbbbbbbbbbbbbbbbbbbb1'', tenantId = ''aaaaaaaaaaaaaaaaaaaaaaa3'',
      bookingOwnerId = ''aaaaaaaaaaaaaaaaaaaaaaa1'', status = ''Accepted'',
      bookingMessage = None\<rparr>"

definition sampleDb :: db where
  "sampleDb =
     \<lparr>users = [sampleOwner, otherOwner, sampleTenant], listings = [sampleListing],
      bookings = [sampleBooking], cloud = {''gharsathi/listings/abc''}\<rparr>"

definition emptyBody :: listingBody where
  "emptyBody =
     \<lparr>bodyTitle = Absent, bodyDescription = Absent, bodyPrice = Absent, bodyLocation = Absent,
      bodyLatitude = Absent, bodyLongitude = Absent, bodyType = Absent, bodyImages = Absent\<rparr>"

definition sampleBody :: listingBody where
  "sampleBody =
     \<lparr>bodyTitle = Val ''Sunny flat in Patan'',
      bodyDescription = Val ''Two rooms with a kitchen, close to the bus park'',
      bodyPrice = Val 1500, bodyLocation = Val ''Lalitpur'',
      bodyLatitude = Val 27.67, bodyLongitude = Val 85.32, bodyType = Val ''Flat'',
      bodyImages = Val [''https://res.cloudinary.com/demo/image/upload/v1/gharsathi/listings/patan.jpg'']\<rparr>"

definition shortTitleBody :: listingBody where
  "shortTitleBody = sampleBody\<lparr>bodyTitle := Val ''Hut''\<rparr>"

definition retitleBody :: listingBody where
  "retitleBody = emptyBody\<lparr>bodyTitle := Val ''Quiet room in Thamel''\<rparr>"

definition moveBody :: listingBody where
  "moveBody = emptyBody\<lparr>bodyLatitude := Val 0, bodyLongitude := Null\<rparr>"

definition repriceBody :: listingBody where
  "repriceBody = emptyBody\<lparr>bodyPrice := Val 1200\<rparr>"

definition hostelListing :: listing where
  "hostelListing =
     \<lparr>oid = ''bbbbbbbbbbbbbbbbbbbbbbb2'', createdAt = 7, updatedAt = 7,
      title = ''Backpacker hostel'', description = ''Dormitory beds with breakfast and lockers'',
      price = 400, location = ''Thamel, Kathmandu'', latitude = Absent, longitude = Absent,
      type = ''Hostel'', images = [], ownerId = ''aaaaaaaaaaaaaaaaaaaaaaa2'', isApproved = True,
      versionKey = 0\<rparr>"

definition pendingListing :: listing where
  "pendingListing =
     \<lparr>oid = ''bbbbbbbbbbbbbbbbbbbbbbb3'', createdAt = 8, updatedAt = 8,
      title = ''Room near Thamel'', description = ''A small room on the second floor'',
      price = 900, location = ''Kathmandu'', latitude = Absent, longitude = Absent,
      type = ''Room'', images = [], ownerId = ''aaaaaaaaaaaaaaaaaaaaaaa2'', isApproved = False,
      versionKey = 0\<rparr>"

definition flatListing :: listing where
  "flatListing =
     \<lparr>oid = ''bbbbbbbbbbbbbbbbbbbbbbb4'', createdAt = 6, updatedAt = 6,
      title = ''Lakeside flat'', description = ''Two bedrooms with a view of the lake'',
      price = 2500, location = ''Pokhara'', latitude = Absent, longitude = Absent,
      type = ''Flat'',
      images = [''https://res.cloudinary.com/demo/image/upload/v1/gharsathi/listings/lake1.jpg'',
                ''https://res.cloudinary.com/demo/image/upload/v2/gharsathi/listings/lake2.png''],
      ownerId = ''aaaaaaaaaaaaaaaaaaaaaaa1'', isApproved = True, versionKey = 0\<rparr>"

definition browseDb :: db where
  "browseDb =
     \<lparr>users = [sampleOwner, otherOwner, sampleTenant],
      listings = [sampleListing, flatListing, hostelListing, pendingListing],
      bookings = [],
      cloud = {''gharsathi/listings/abc'', ''gharsathi/listings/lake1'', ''gharsathi/listings/lake2''}\<rparr>"

definition thamelFilters :: listingFilters where
  "thamelFilters =
     \<lparr>queryType = Some ''All'', queryMinPrice = Some ''400'', queryMaxPrice = Some ''1000'',
      querySearch = Some ''thamel''\<rparr>"

definition dotFilters :: listingFilters where
  "dotFilters =
     \<lparr>queryType = None, queryMinPrice = None, queryMaxPrice = None, querySearch = Some ''.''\<rparr>"

definition infoBody :: registerBody where
  "infoBody =
     \<lparr>bodyName = Val ''Ann Example'', bodyEmail = Val ''ann@example.info'',
      bodyPassword = Val ''letmein'', bodyRole = Val ''Admin''\<rparr>"

definition adminBody :: registerBody where
  "adminBody =
     \<lparr>bodyName = Val ''Mallory'', bodyEmail = Val ''Mallory@Example.com'',
      bodyPassword = Val ''letmein'', bodyRole = Val ''Admin''\<rparr>"

section \<open>Stand-ins for the built-ins\<close>

text \<open>
  The regular expression engine on the patterns in which the dot is the only special
  character: a dot matches one character that is no line terminator, any other
  character matches itself in either case, and the expression matches at any position.
  A pattern with another special character is outside this fragment; the stand-in is
  given none.
\<close>

definition regExpSpecial :: string where
  "regExpSpecial =
     [CHR 0x5C, CHR ''^'', CHR ''$'', CHR ''*'', CHR ''+'', CHR ''?'', CHR ''('', CHR '')'',
      CHR ''['', CHR '']'', CHR ''{'', CHR ''}'', CHR ''|'']"

definition atomMatches :: "char \<Rightarrow> char \<Rightarrow> bool" where
  "atomMatches a c =
     (if a = CHR ''.'' then c \<notin> set [CHR 0x0A, CHR 0x0D]
      else toLowerCaseChar a = toLowerCaseChar c)"

fun matchesAt :: "string \<Rightarrow> string \<Rightarrow> bool" where
  "matchesAt [] s = True"
| "matchesAt (a # as) [] = False"
| "matchesAt (a # as) (c # cs) = (atomMatches a c \<and> matchesAt as cs)"

fun matchesSomewhere :: "string \<Rightarrow> string \<Rightarrow> bool" where
  "matchesSomewhere p [] = matchesAt p []"
| "matchesSomewhere p (c # cs) = (matchesAt p (c # cs) \<or> matchesSomewhere p cs)"

definition fragmentRegExp :: "string \<Rightarrow> (string \<Rightarrow> bool) option" where
  "fragmentRegExp p =
     (if list_ex (\<lambda>c. c \<in> set regExpSpecial) p then None else Some (matchesSomewhere p))"

text \<open>\<^verbatim>\<open>Number\<close> on the strings of decimal digits; the empty string is 0. The stand-in is given no other numeric string.\<close>

definition digitOf :: "char \<Rightarrow> nat option" where
  "digitOf c = map_of (zip ''0123456789'' [0, 1, 2, 3, 4, 5, 6, 7, 8, 9]) c"

fun decimal :: "string \<Rightarrow> nat \<Rightarrow> nat option" where
  "decimal [] n = Some n"
| "decimal (c # cs) n = (case digitOf c of None \<Rightarrow> None | Some k \<Rightarrow> decimal cs (10 * n + k))"

definition decimalNumber :: "string \<Rightarrow> real option" where
  "decimalNumber s = map_option real (decimal s 0)"

text \<open>Outcomes of \<^verbatim>\<open>cloudinary.uploader.destroy\<close>: every call resolves, every call rejects, one call rejects.\<close>

definition destroyResolves :: "string \<Rightarrow> bool" where
  "destroyResolves p = True"

definition destroyRejects :: "string \<Rightarrow> bool" where
  "destroyRejects p = False"

definition destroyRejectsLake2 :: "string \<Rightarrow> bool" where
  "destroyRejectsLake2 p = (p \<noteq> ''gharsathi/listings/lake2'')"

text \<open>
  A password hash that can be compared, and a token: \<^verbatim>\<open>bcrypt.compare\<close> accepts the
  password from which \<^verbatim>\<open>bcrypt.hash\<close> made the hash.
\<close>

definition sampleHash :: "string \<Rightarrow> string" where
  "sampleHash p = ''hash:'' @ p"

definition sampleCompare :: "string \<Rightarrow> string \<Rightarrow> bool" where
  "sampleCompare p h = (h = sampleHash p)"

definition sampleToken :: "objectId \<Rightarrow> string" where
  "sampleToken i = ''token:'' @ i"

definition sampleServices :: services where
  "sampleServices =
     \<lparr>svHash = sampleHash, svCompare = sampleCompare, svToken = sampleToken,
      svRegExp = fragmentRegExp, svNumber = decimalNumber, svDestroy = destroyResolves,
      svUpload = Map.empty\<rparr>"


definition rejectSample :: operation where
  "rejectSample = UpdateBookingStatus 9 sampleOwner (JStr ''Rejected'') ''ccccccccccccccccccccccc1''"

definition sampleOps :: "operation list" where
  "sampleOps =
     [rejectSample, GetOwnerBookings sampleOwner,
      CreateBooking 10 ''ccccccccccccccccccccccc2'' otherOwner (Val ''bbbbbbbbbbbbbbbbbbbbbbb1'') Absent,
      UpdateBookingStatus 11 sampleOwner (JStr ''Accepted'') ''ccccccccccccccccccccccc1'']"

section \<open>The spec's reading of the search and of the filters\<close>

text \<open>
  ``Contains the search string case-insensitively'': some position of the string starts
  with the search string when the case of letters is ignored.
\<close>

fun startsWithCI :: "string \<Rightarrow> string \<Rightarrow> bool" where
  "startsWithCI [] s = True"
| "startsWithCI (a # as) [] = False"
| "startsWithCI (a # as) (c # cs) = (toLowerCaseChar a = toLowerCaseChar c \<and> startsWithCI as cs)"

fun containsCI :: "string \<Rightarrow> string \<Rightarrow> bool" where
  "containsCI p [] = startsWithCI p []"
| "containsCI p (c # cs) = (startsWithCI p (c # cs) \<or> containsCI p cs)"

text \<open>
  The listings that the spec wants for the filters \<open>f\<close>, with \<open>lo\<close> and \<open>hi\<close> the numbers
  of \<^verbatim>\<open>minPrice\<close> and \<^verbatim>\<open>maxPrice\<close>; a filter that is absent or empty is not supplied.
\<close>

definition wanted :: "listingFilters \<Rightarrow> real \<Rightarrow> real \<Rightarrow> listing \<Rightarrow> bool" where
  "wanted f lo hi l =
     (isApproved l
      \<and> (truthyQuery (queryType f) \<and> queryType f \<noteq> Some ''All'' \<longrightarrow> Some (type l) = queryType f)
      \<and> (truthyQuery (queryMinPrice f) \<longrightarrow> lo \<le> price l)
      \<and> (truthyQuery (queryMaxPrice f) \<longrightarrow> price l \<le> hi)
      \<and> (truthyQuery (querySearch f) \<longrightarrow>
            containsCI (queryString (querySearch f)) (title l)
            \<or> containsCI (queryString (querySearch f)) (location l)))"

section \<open>The spec's reading of a skipped field\<close>

text \<open>
  A body in which a falsy title, description, location or type is left out, as the spec
  words it: such a value is ``treated as not supplied''.
\<close>

definition withoutFalsyText :: "listingBody \<Rightarrow> listingBody" where
  "withoutFalsyText b =
     b\<lparr>bodyTitle := (if truthyStr (bodyTitle b) then bodyTitle b else Absent),
       bodyDescription := (if truthyStr (bodyDescription b) then bodyDescription b else Absent),
       bodyLocation := (if truthyStr (bodyLocation b) then bodyLocation b else Absent),
       bodyType := (if truthyStr (bodyType b) then bodyType b else Absent)\<rparr>"

section \<open>Lemmas on the store\<close>

lemma find_no_match: "\<not> (\<exists>x \<in> set xs. P x) \<Longrightarrow> find P xs = None"
  by (simp add: find_None_iff)

lemma castObjectId_abc: "castObjectId ''abc'' = None"
  by (simp add: castObjectId_def)

lemma castObjectId_sampleListing:
  "castObjectId ''bbbbbbbbbbbbbbbbbbbbbbb1'' = Some ''bbbbbbbbbbbbbbbbbbbbbbb1''"
  by (simp add: castObjectId_def isHexDigit_def toLowerCase_def toLowerCaseChar_def)

lemma castObjectId_sampleBooking:
  "castObjectId ''ccccccccccccccccccccccc1'' = Some ''ccccccccccccccccccccccc1''"
  by (simp add: castObjectId_def isHexDigit_def toLowerCase_def toLowerCaseChar_def)

lemma findById_sampleListing:
  "findById (listings sampleDb) ''bbbbbbbbbbbbbbbbbbbbbbb1'' = Inr (Some sampleListing)"
  by (simp add: findById_def castObjectId_sampleListing sampleDb_def sampleListing_def)

lemma sampleListing_owner: "ownerId sampleListing = oid sampleOwner"
  by (simp add: sampleListing_def sampleOwner_def)

lemma findById_Some_oid:
  "findById docs i = Inr (Some l)
     \<Longrightarrow> castObjectId i = Some (oid l) \<and> find (\<lambda>x. oid x = oid l) docs = Some l"
  by (auto simp: findById_def find_Some_iff split: option.splits)

lemma find_replaceDoc:
  "find (\<lambda>x. oid x = k) xs = Some l \<Longrightarrow> oid l' = k
     \<Longrightarrow> find (\<lambda>x. oid x = k) (replaceDoc l' xs) = Some l'"
  by (induction xs) (auto simp: replaceDoc_def split: if_splits)

lemma touch_fields:
  "oid (touch now old new) = oid new" "createdAt (touch now old new) = createdAt new"
  "updatedAt (touch now old new) \<in> {updatedAt old, now}"
  by (auto simp: touch_def)

lemma touch_listing:
  "title (touch now old new) = title new" "description (touch now old new) = description new"
  "price (touch now old new) = price new" "location (touch now old new) = location new"
  "latitude (touch now old new) = latitude new" "longitude (touch now old new) = longitude new"
  "type (touch now old new) = type new" "images (touch now old new) = images new"
  "ownerId (touch now old new) = ownerId new" "isApproved (touch now old new) = isApproved new"
  by (auto simp: touch_def)

lemma trim_Nil: "trim [] = []"
  by (simp add: trim_def)

section \<open>Malformed identifiers\<close>

text \<open>
  Claim C10. For every malformed listing id (a string that is no ObjectId) presented
  with a boolean \<^verbatim>\<open>isApproved\<close>, \<^verbatim>\<open>updateListingStatus\<close> answers 500 and leaves the
  store as it is, because its \<^verbatim>\<open>catch\<close> block has no CastError branch, whereas
  \<^verbatim>\<open>getListingById\<close>, \<^verbatim>\<open>updateListing\<close> and \<^verbatim>\<open>deleteListing\<close> answer 400
  ``Invalid listing ID'' for the same id.
\<close>

theorem updateListingStatus_malformed_id:
  assumes "castObjectId i = None"
  shows "updateListingStatus now d (JBool a) i = (failure 500 ''Failed to update listing status'', d)
       \<and> getListingById d i = (failure 400 ''Invalid listing ID'', d)
       \<and> updateListing now d u i b = (failure 400 ''Invalid listing ID'', d)
       \<and> deleteListing destroyOk d u i = (failure 400 ''Invalid listing ID'', d)"
  using assms
  by (simp add: updateListingStatus_def getListingById_def updateListing_def deleteListing_def
      findById_def)

theorem updateListingStatus_malformed_id_witness:
  "castObjectId ''abc'' = None
   \<and> updateListingStatus 9 sampleDb (JBool True) ''abc''
       = (failure 500 ''Failed to update listing status'', sampleDb)
   \<and> getListingById sampleDb ''abc'' = (failure 400 ''Invalid listing ID'', sampleDb)"
  using updateListingStatus_malformed_id [OF castObjectId_abc, of 9 sampleDb True]
  by (simp add: castObjectId_abc)

section \<open>The outcomes of updateBookingStatus\<close>

text \<open>
  Claim C3, as amended. A target status other than the strings Accepted and Rejected
  is answered with 400 ``Invalid status'' before any lookup, whatever the id. For a
  target status Accepted or Rejected and a well-formed booking id, the answer is 404
  ``Booking not found'', with the store unchanged, whenever no booking has that id and
  the caller as its owner: a caller who does not own the booking sees the same answer
  as for a booking that does not exist. No answer of the controller is 403; the role
  check \<^verbatim>\<open>requireOwner\<close> of the route runs before the controller and is not part of it.
\<close>

theorem updateBookingStatus_outcomes:
  "(statusB \<notin> {JStr ''Accepted'', JStr ''Rejected''} \<longrightarrow>
      updateBookingStatus now d u statusB i = (failure 400 ''Invalid status'', d))
   \<and> (statusB \<in> {JStr ''Accepted'', JStr ''Rejected''} \<and> castObjectId i = Some k
        \<and> \<not> (\<exists>b \<in> set (bookings d). oid b = k \<and> bookingOwnerId b = oid u) \<longrightarrow>
      updateBookingStatus now d u statusB i = (failure 404 ''Booking not found'', d))
   \<and> httpStatus (fst (updateBookingStatus now d u statusB i)) \<noteq> 403"
proof (intro conjI impI)
  assume "statusB \<notin> {JStr ''Accepted'', JStr ''Rejected''}"
  then show "updateBookingStatus now d u statusB i = (failure 400 ''Invalid status'', d)"
    by (cases statusB) (auto simp: updateBookingStatus_def)
next
  assume a: "statusB \<in> {JStr ''Accepted'', JStr ''Rejected''} \<and> castObjectId i = Some k
        \<and> \<not> (\<exists>b \<in> set (bookings d). oid b = k \<and> bookingOwnerId b = oid u)"
  then have "find (\<lambda>b. oid b = k \<and> bookingOwnerId b = oid u) (bookings d) = None"
    by (intro find_no_match) simp
  with a show "updateBookingStatus now d u statusB i = (failure 404 ''Booking not found'', d)"
    by (auto simp: updateBookingStatus_def)
next
  show "httpStatus (fst (updateBookingStatus now d u statusB i)) \<noteq> 403"
    by (cases statusB)
      (auto simp: updateBookingStatus_def failure_def succeed_def Let_def split: option.splits)
qed

theorem updateBookingStatus_outcomes_witness:
  "updateBookingStatus 9 sampleDb sampleOwner (JStr ''Pending'') ''ccccccccccccccccccccccc1''
       = (failure 400 ''Invalid status'', sampleDb)
   \<and> castObjectId ''ccccccccccccccccccccccc1'' = Some (oid sampleBooking)
   \<and> bookings sampleDb = [sampleBooking] \<and> bookingOwnerId sampleBooking \<noteq> oid otherOwner
   \<and> updateBookingStatus 9 sampleDb otherOwner (JStr ''Rejected'') ''ccccccccccccccccccccccc1''
       = (failure 404 ''Booking not found'', sampleDb)"
proof -
  have h1: "JStr ''Pending'' \<notin> {JStr ''Accepted'', JStr ''Rejected''}"
    by simp
  have h2: "castObjectId ''ccccccccccccccccccccccc1'' = Some (oid sampleBooking)"
    by (simp add: castObjectId_sampleBooking sampleBooking_def)
  have h3: "bookings sampleDb = [sampleBooking]" "bookingOwnerId sampleBooking \<noteq> oid otherOwner"
    by (simp_all add: sampleDb_def sampleBooking_def otherOwner_def)
  have h4: "\<not> (\<exists>b \<in> set (bookings sampleDb).
               oid b = oid sampleBooking \<and> bookingOwnerId b = oid otherOwner)"
    using h3 by simp
  show ?thesis
    using h1 h2 h3 h4
      updateBookingStatus_outcomes [of "JStr ''Pending''" 9 sampleDb sampleOwner
        "''ccccccccccccccccccccccc1''"]
      updateBookingStatus_outcomes [of "JStr ''Rejected''" 9 sampleDb otherOwner
        "''ccccccccccccccccccccccc1''" "oid sampleBooking"]
    by simp
qed

text \<open>
  The claim as it is written covers every id. For the id \<^verbatim>\<open>abc\<close> no booking matches,
  and the answer is 500, not 404: the CastError of the lookup reaches the \<^verbatim>\<open>catch\<close>
  block.
\<close>

theorem updateBookingStatus_malformed_id_counterexample:
  "castObjectId ''abc'' = None
   \<and> updateBookingStatus 9 sampleDb otherOwner (JStr ''Accepted'') ''abc''
        = (failure 500 ''Failed to update booking status'', sampleDb)
   \<and> httpStatus (fst (updateBookingStatus 9 sampleDb otherOwner (JStr ''Accepted'') ''abc'')) = 500"
  by (simp add: updateBookingStatus_def castObjectId_abc failure_def)

section \<open>Deleting a listing and its images\<close>

lemma map_filter_getPublicIdFromUrl_length:
  "length (List.map_filter getPublicIdFromUrl urls) = length urls"
  by (induction urls) (simp_all add: List.map_filter_simps getPublicIdFromUrl_def Let_def)

lemma getPublicIdFromUrl_sample:
  "getPublicIdFromUrl ''https://res.cloudinary.com/demo/image/upload/v1/gharsathi/listings/abc.jpg''
     = Some ''gharsathi/listings/abc''"
  by (simp add: getPublicIdFromUrl_def)

lemma castObjectId_flatListing:
  "castObjectId ''bbbbbbbbbbbbbbbbbbbbbbb4'' = Some ''bbbbbbbbbbbbbbbbbbbbbbb4''"
  by (simp add: castObjectId_def isHexDigit_def toLowerCase_def toLowerCaseChar_def)

lemma findById_flatListing:
  "findById (listings browseDb) ''bbbbbbbbbbbbbbbbbbbbbbb4'' = Inr (Some flatListing)"
  by (simp add: findById_def castObjectId_flatListing browseDb_def sampleListing_def flatListing_def)

lemma flatListing_owner: "ownerId flatListing = oid sampleOwner"
  by (simp add: flatListing_def sampleOwner_def)

lemma publicIds_flatListing:
  "List.map_filter getPublicIdFromUrl (images flatListing)
     = [''gharsathi/listings/lake1'', ''gharsathi/listings/lake2'']"
  by (simp add: flatListing_def List.map_filter_simps getPublicIdFromUrl_def)

lemma publicIds_sampleListing:
  "List.map_filter getPublicIdFromUrl (images sampleListing) = [''gharsathi/listings/abc'']"
  by (simp add: sampleListing_def List.map_filter_simps getPublicIdFromUrl_sample)

text \<open>
  Claim C2, as amended. When the owner deletes a listing, a deletion is started for
  every image. If all of them succeed, the answer is 200, the listing is removed and
  the images are gone. If one of them fails, the answer is 500 and the listing stays in
  the store, while the images whose deletion succeeded are gone: the failure is
  passed on to the caller, and nothing is rolled back.
\<close>

theorem deleteListing_image_failures:
  assumes "findById (listings d) i = Inr (Some l)" and "ownerId l = oid u"
  shows "length (List.map_filter getPublicIdFromUrl (images l)) = length (images l)
    \<and> (list_all destroyOk (List.map_filter getPublicIdFromUrl (images l)) \<longrightarrow>
         deleteListing destroyOk d u i =
           (deleted ''Listing deleted successfully'',
            d\<lparr>listings := filter (\<lambda>x. oid x \<noteq> oid l) (listings d),
              cloud := cloud d - set (List.map_filter getPublicIdFromUrl (images l))\<rparr>))
    \<and> (\<not> list_all destroyOk (List.map_filter getPublicIdFromUrl (images l)) \<longrightarrow>
         deleteListing destroyOk d u i =
           (failure 500 ''Failed to delete listing. Please try again.'',
            d\<lparr>cloud := cloud d
                 - set (filter destroyOk (List.map_filter getPublicIdFromUrl (images l)))\<rparr>))"
proof (intro conjI impI)
  show "length (List.map_filter getPublicIdFromUrl (images l)) = length (images l)"
    by (rule map_filter_getPublicIdFromUrl_length)
next
  assume ok: "list_all destroyOk (List.map_filter getPublicIdFromUrl (images l))"
  then have "{x \<in> set (List.map_filter getPublicIdFromUrl (images l)). destroyOk x}
      = set (List.map_filter getPublicIdFromUrl (images l))"
    by (auto simp: list_all_iff)
  with ok assms show "deleteListing destroyOk d u i =
           (deleted ''Listing deleted successfully'',
            d\<lparr>listings := filter (\<lambda>x. oid x \<noteq> oid l) (listings d),
              cloud := cloud d - set (List.map_filter getPublicIdFromUrl (images l))\<rparr>)"
    by (simp add: deleteListing_def Let_def)
next
  assume "\<not> list_all destroyOk (List.map_filter getPublicIdFromUrl (images l))"
  with assms show "deleteListing destroyOk d u i =
           (failure 500 ''Failed to delete listing. Please try again.'',
            d\<lparr>cloud := cloud d
                 - set (filter destroyOk (List.map_filter getPublicIdFromUrl (images l)))\<rparr>)"
    by (simp add: deleteListing_def Let_def)
qed

theorem deleteListing_image_failures_witness:
  "deleteListing destroyResolves sampleDb sampleOwner ''bbbbbbbbbbbbbbbbbbbbbbb1''
     = (deleted ''Listing deleted successfully'', sampleDb\<lparr>listings := [], cloud := {}\<rparr>)
   \<and> deleteListing destroyRejectsLake2 browseDb sampleOwner ''bbbbbbbbbbbbbbbbbbbbbbb4''
     = (failure 500 ''Failed to delete listing. Please try again.'',
        browseDb\<lparr>cloud := {''gharsathi/listings/abc'', ''gharsathi/listings/lake2''}\<rparr>)"
proof -
  have l: "listings sampleDb = [sampleListing]" "cloud sampleDb = {''gharsathi/listings/abc''}"
    by (simp_all add: sampleDb_def)
  have c: "cloud browseDb - {''gharsathi/listings/lake1''}
      = {''gharsathi/listings/abc'', ''gharsathi/listings/lake2''}"
    by (auto simp: browseDb_def)
  have a: "deleteListing destroyResolves sampleDb sampleOwner ''bbbbbbbbbbbbbbbbbbbbbbb1''
     = (deleted ''Listing deleted successfully'', sampleDb\<lparr>listings := [], cloud := {}\<rparr>)"
    using deleteListing_image_failures [OF findById_sampleListing sampleListing_owner, of destroyResolves]
    by (simp add: publicIds_sampleListing l destroyResolves_def)
  have b: "deleteListing destroyRejectsLake2 browseDb sampleOwner ''bbbbbbbbbbbbbbbbbbbbbbb4''
     = (failure 500 ''Failed to delete listing. Please try again.'',
        browseDb\<lparr>cloud := {''gharsathi/listings/abc'', ''gharsathi/listings/lake2''}\<rparr>)"
    using deleteListing_image_failures [OF findById_flatListing flatListing_owner, of destroyRejectsLake2]
    by (simp add: publicIds_flatListing destroyRejectsLake2_def c)
  show ?thesis
    using a b by simp
qed

text \<open>
  The claim as it is written: when the deletion of the one image of the sample listing
  fails, the request of the owner is answered with 500 and the listing is still stored.
\<close>

theorem deleteListing_image_failure_counterexample:
  "ownerId sampleListing = oid sampleOwner
   \<and> deleteListing destroyRejects sampleDb sampleOwner ''bbbbbbbbbbbbbbbbbbbbbbb1''
     = (failure 500 ''Failed to delete listing. Please try again.'', sampleDb)
   \<and> listings sampleDb = [sampleListing]"
proof -
  have "deleteListing destroyRejects sampleDb sampleOwner ''bbbbbbbbbbbbbbbbbbbbbbb1''
     = (failure 500 ''Failed to delete listing. Please try again.'', sampleDb)"
    by (simp add: deleteListing_def findById_sampleListing sampleListing_owner Let_def
        publicIds_sampleListing destroyRejects_def)
  then show ?thesis
    by (simp add: sampleListing_owner sampleDb_def)
qed

section \<open>Creating a listing\<close>

lemma validateListing_ok:
  assumes "5 \<le> length (title l)" "length (title l) \<le> 100"
    "20 \<le> length (description l)" "length (description l) \<le> 2000"
    "0 \<le> price l" "location l \<noteq> []" "type l \<in> set listingTypes"
    "\<forall>x. latitude l = Val x \<longrightarrow> - 90 \<le> x \<and> x \<le> 90"
    "\<forall>x. longitude l = Val x \<longrightarrow> - 180 \<le> x \<and> x \<le> 180"
    "[] \<notin> set (images l)"
  shows "validateListing l = []"
proof -
  have t: "validateTitle (title l) = []"
    using assms(1,2) by (auto simp: validateTitle_def)
  have de: "validateDescription (description l) = []"
    using assms(3,4) by (auto simp: validateDescription_def)
  have p: "validatePrice (price l) = []"
    using assms(5) by (simp add: validatePrice_def)
  have lo: "validateLocation (location l) = []"
    using assms(6) by (simp add: validateLocation_def)
  have la: "validateLatitude (latitude l) = []"
    using assms(8) by (auto simp: validateLatitude_def split: field.splits)
  have ln: "validateLongitude (longitude l) = []"
    using assms(9) by (auto simp: validateLongitude_def split: field.splits)
  have ty: "validateType (type l) = []"
    using assms(7) by (auto simp: validateType_def listingTypes_def)
  have im: "validateImages (images l) = []"
    using assms(10) by (auto simp: validateImages_def list_all_iff)
  show ?thesis
    by (simp add: validateListing_def t de p lo la ln ty im)
qed

lemma validateListing_sampleListing: "validateListing sampleListing = []"
  by (simp add: sampleListing_def validateListing_def validateTitle_def validateDescription_def
      validatePrice_def validateLocation_def validateLatitude_def validateLongitude_def
      validateType_def validateImages_def listingTypes_def)

text \<open>
  Claim C4, as amended. For every body that passes the checks of the controller
  (title, description, price, location and type present, price above 0, type one of the
  four) and the validators of the schema (title of 5 to 100 and description of 20 to
  2000 characters after trimming, a location that is not blank, latitude and longitude
  in range and no empty image URL when they are given), \<^verbatim>\<open>createListing\<close> answers 201
  and stores a listing that is approved at once and owned by the caller.
\<close>

theorem createListing_auto_approved:
  assumes "bodyTitle b = Val t" "5 \<le> length (trim t)" "length (trim t) \<le> 100"
    and "bodyDescription b = Val de" "20 \<le> length (trim de)" "length (trim de) \<le> 2000"
    and "bodyPrice b = Val p" "0 < p"
    and "bodyLocation b = Val lo" "trim lo \<noteq> []"
    and "bodyType b = Val ty" "ty \<in> set listingTypes"
    and "\<forall>x. bodyLatitude b = Val x \<longrightarrow> - 90 \<le> x \<and> x \<le> 90"
    and "\<forall>x. bodyLongitude b = Val x \<longrightarrow> - 180 \<le> x \<and> x \<le> 180"
    and "\<forall>urls. bodyImages b = Val urls \<longrightarrow> [] \<notin> set urls"
  shows "\<exists>l. createListing now newId d u b
              = (succeed 201 ''Listing created successfully'' l, d\<lparr>listings := listings d @ [l]\<rparr>)
           \<and> isApproved l \<and> ownerId l = oid u \<and> oid l = newId \<and> createdAt l = now
           \<and> title l = trim t \<and> description l = trim de \<and> price l = p \<and> location l = trim lo
           \<and> type l = ty"
proof -
  let ?l = "\<lparr>oid = newId, createdAt = now, updatedAt = now,
             title = strOf (bodyTitle b), description = strOf (bodyDescription b),
             price = numOf (bodyPrice b), location = strOf (bodyLocation b),
             latitude = bodyLatitude b, longitude = bodyLongitude b,
             type = rawOf (bodyType b), images = imagesOrEmpty (bodyImages b),
             ownerId = oid u, isApproved = True, versionKey = 0\<rparr>"
  have ne: "t \<noteq> []" "de \<noteq> []" "lo \<noteq> []" "ty \<noteq> []"
    using assms(2,5,10,12) by (auto simp: trim_Nil listingTypes_def)
  have la: "\<forall>x. latitude ?l = Val x \<longrightarrow> - 90 \<le> x \<and> x \<le> 90"
    using assms(13) by simp
  have ln: "\<forall>x. longitude ?l = Val x \<longrightarrow> - 180 \<le> x \<and> x \<le> 180"
    using assms(14) by simp
  have im: "[] \<notin> set (images ?l)"
    using assms(15) by (cases "bodyImages b") auto
  have v: "validateListing ?l = []"
    by (rule validateListing_ok) (use assms la ln im in \<open>simp_all\<close>)
  have "createListing now newId d u b
          = (succeed 201 ''Listing created successfully'' ?l, d\<lparr>listings := listings d @ [?l]\<rparr>)"
    using assms(1,4,7,8,9,11,12) ne v
    by (simp add: createListing_def Listing_create_def)
  then show ?thesis
    using assms(1,4,7,9,11) by (intro exI[of _ ?l]) simp
qed

theorem createListing_auto_approved_witness:
  "\<exists>l. createListing 9 ''ddddddddddddddddddddddd1'' sampleDb sampleOwner sampleBody
          = (succeed 201 ''Listing created successfully'' l,
             sampleDb\<lparr>listings := listings sampleDb @ [l]\<rparr>)
       \<and> isApproved l \<and> ownerId l = oid sampleOwner \<and> title l = ''Sunny flat in Patan''"
proof -
  have tr: "trim ''Sunny flat in Patan'' = ''Sunny flat in Patan''"
    "trim ''Two rooms with a kitchen, close to the bus park''
       = ''Two rooms with a kitchen, close to the bus park''"
    "trim ''Lalitpur'' = ''Lalitpur''"
    by (simp_all add: trim_def isWhiteSpace_def)
  have "\<exists>l. createListing 9 ''ddddddddddddddddddddddd1'' sampleDb sampleOwner sampleBody
          = (succeed 201 ''Listing created successfully'' l,
             sampleDb\<lparr>listings := listings sampleDb @ [l]\<rparr>)
       \<and> isApproved l \<and> ownerId l = oid sampleOwner \<and> oid l = ''ddddddddddddddddddddddd1''
           \<and> createdAt l = 9
           \<and> title l = trim ''Sunny flat in Patan''
           \<and> description l = trim ''Two rooms with a kitchen, close to the bus park''
           \<and> price l = 1500 \<and> location l = trim ''Lalitpur'' \<and> type l = ''Flat''"
    by (rule createListing_auto_approved [of sampleBody "''Sunny flat in Patan''"
          "''Two rooms with a kitchen, close to the bus park''" 1500 "''Lalitpur''" "''Flat''"])
       (simp_all add: sampleBody_def tr listingTypes_def)
  then show ?thesis by (auto simp: tr)
qed

text \<open>
  The claim as it is written asks for no more than the five fields, a price above 0 and
  a type of the set. The body below has them, and its title has three characters: the
  validator of the schema rejects it and the answer is 400.
\<close>

theorem createListing_short_title_counterexample:
  "truthyStr (bodyTitle shortTitleBody) \<and> truthyStr (bodyDescription shortTitleBody)
   \<and> bodyPrice shortTitleBody = Val 1500 \<and> truthyStr (bodyLocation shortTitleBody)
   \<and> includesType (bodyType shortTitleBody)
   \<and> createListing 9 ''ddddddddddddddddddddddd1'' sampleDb sampleOwner shortTitleBody
      = (failure 400 ''Title must be at least 5 characters long'', sampleDb)"
  by (simp add: createListing_def shortTitleBody_def sampleBody_def Listing_create_def
      listingTypes_def validateListing_def validateTitle_def validateDescription_def
      validatePrice_def validateLocation_def validateLatitude_def validateLongitude_def
      validateType_def validateImages_def trim_def isWhiteSpace_def)

section \<open>Updating a listing\<close>

lemma assignFields_frame:
  "oid (assignFields l b) = oid l" "createdAt (assignFields l b) = createdAt l"
  "updatedAt (assignFields l b) = updatedAt l"
  "ownerId (assignFields l b) = ownerId l" "isApproved (assignFields l b) = isApproved l"
  "versionKey (assignFields l b) = versionKey l"
  "\<not> truthyStr (bodyTitle b) \<Longrightarrow> title (assignFields l b) = title l"
  "\<not> truthyStr (bodyDescription b) \<Longrightarrow> description (assignFields l b) = description l"
  "\<not> truthyNum (bodyPrice b) \<Longrightarrow> price (assignFields l b) = price l"
  "\<not> truthyStr (bodyLocation b) \<Longrightarrow> location (assignFields l b) = location l"
  "bodyLatitude b = Absent \<Longrightarrow> latitude (assignFields l b) = latitude l"
  "bodyLongitude b = Absent \<Longrightarrow> longitude (assignFields l b) = longitude l"
  "\<not> truthyStr (bodyType b) \<Longrightarrow> type (assignFields l b) = type l"
  "\<not> truthyArr (bodyImages b) \<Longrightarrow> images (assignFields l b) = images l"
  by (simp_all add: assignFields_def Let_def)

lemma assignFields_written:
  "truthyStr (bodyTitle b) \<Longrightarrow> title (assignFields l b) = strOf (bodyTitle b)"
  "truthyStr (bodyDescription b) \<Longrightarrow> description (assignFields l b) = strOf (bodyDescription b)"
  "truthyNum (bodyPrice b) \<Longrightarrow> price (assignFields l b) = numOf (bodyPrice b)"
  "truthyStr (bodyLocation b) \<Longrightarrow> location (assignFields l b) = strOf (bodyLocation b)"
  "bodyLatitude b \<noteq> Absent \<Longrightarrow> latitude (assignFields l b) = bodyLatitude b"
  "bodyLongitude b \<noteq> Absent \<Longrightarrow> longitude (assignFields l b) = bodyLongitude b"
  "truthyStr (bodyType b) \<Longrightarrow> type (assignFields l b) = rawOf (bodyType b)"
  "truthyArr (bodyImages b) \<Longrightarrow> images (assignFields l b) = imagesOrEmpty (bodyImages b)"
  by (simp_all add: assignFields_def Let_def)

lemma savedListing_fields:
  "oid (savedListing now old new) = oid new" "createdAt (savedListing now old new) = createdAt new"
  "title (savedListing now old new) = title new"
  "description (savedListing now old new) = description new"
  "price (savedListing now old new) = price new" "location (savedListing now old new) = location new"
  "latitude (savedListing now old new) = latitude new"
  "longitude (savedListing now old new) = longitude new"
  "type (savedListing now old new) = type new" "images (savedListing now old new) = images new"
  "ownerId (savedListing now old new) = ownerId new"
  "isApproved (savedListing now old new) = isApproved new"
  by (simp_all add: savedListing_def Let_def touch_fields touch_listing)

lemma savedListing_maintained:
  "updatedAt (savedListing now old new) \<in> {updatedAt old, now}"
  "savedListing now old new = old \<or> updatedAt (savedListing now old new) = now"
  "versionKey new = versionKey old \<Longrightarrow>
     versionKey (savedListing now old new)
       = (if images new = images old then versionKey old else versionKey old + 1)"
  by (auto simp: savedListing_def Let_def touch_def)

lemma assignFields_unchanged:
  "(assignFields l b = l)
     = (title (assignFields l b) = title l \<and> description (assignFields l b) = description l
        \<and> price (assignFields l b) = price l \<and> location (assignFields l b) = location l
        \<and> latitude (assignFields l b) = latitude l \<and> longitude (assignFields l b) = longitude l
        \<and> type (assignFields l b) = type l \<and> images (assignFields l b) = images l)"
proof
  assume "assignFields l b = l"
  then show "title (assignFields l b) = title l \<and> description (assignFields l b) = description l
        \<and> price (assignFields l b) = price l \<and> location (assignFields l b) = location l
        \<and> latitude (assignFields l b) = latitude l \<and> longitude (assignFields l b) = longitude l
        \<and> type (assignFields l b) = type l \<and> images (assignFields l b) = images l"
    by simp
next
  assume a: "title (assignFields l b) = title l \<and> description (assignFields l b) = description l
        \<and> price (assignFields l b) = price l \<and> location (assignFields l b) = location l
        \<and> latitude (assignFields l b) = latitude l \<and> longitude (assignFields l b) = longitude l
        \<and> type (assignFields l b) = type l \<and> images (assignFields l b) = images l"
  have m: "listing.more (assignFields l b) = listing.more l"
    by (simp add: assignFields_def Let_def)
  show "assignFields l b = l"
    by (rule listing.equality) (simp_all add: a m assignFields_frame)
qed

lemma savedListing_updatedAt:
  "updatedAt new = updatedAt old \<Longrightarrow>
     updatedAt (savedListing now old new) = (if new = old then updatedAt old else now)"
  by (simp add: savedListing_def Let_def touch_def)

lemma messages_Nil:
  "(concat (map snd (filter fst ps)) @ concat (map snd (filter (\<lambda>p. \<not> fst p) ps)) = [])
     = (concat (map snd ps) = [])"
  by (induction ps) auto

lemma saveMessages_Nil: "(saveMessages old new = []) = (validateListing new = [])"
  unfolding saveMessages_def Let_def messages_Nil by (simp add: validateListing_def)

lemma updateListing_owner:
  assumes "findById (listings d) i = Inr (Some l)" and "ownerId l = oid u"
    and "bodyPrice b = Absent \<or> \<not> leZero (bodyPrice b)"
  shows "updateListing now d u i b
           = (succeed 200 ''Listing updated successfully'' (savedListing now l (assignFields l b)),
              d\<lparr>listings := replaceDoc (savedListing now l (assignFields l b)) (listings d)\<rparr>)
       \<or> httpStatus (fst (updateListing now d u i b)) = 400 \<and> snd (updateListing now d u i b) = d"
  using assms by (auto simp: updateListing_def Listing_save_def Let_def failure_def)

lemma updateListing_valid:
  assumes "findById (listings d) i = Inr (Some l)" and "ownerId l = oid u"
    and "bodyPrice b = Absent \<or> \<not> leZero (bodyPrice b)"
    and "\<not> truthyStr (bodyType b) \<or> includesType (bodyType b)"
    and "validateListing (assignFields l b) = []"
  shows "updateListing now d u i b
           = (succeed 200 ''Listing updated successfully'' (savedListing now l (assignFields l b)),
              d\<lparr>listings := replaceDoc (savedListing now l (assignFields l b)) (listings d)\<rparr>)"
  using assms by (auto simp: updateListing_def Listing_save_def Let_def saveMessages_Nil)

lemma updateListing_success:
  assumes "updateListing now d u i b = (r, d')" "httpStatus r = 200"
  shows "\<exists>l. findById (listings d) i = Inr (Some l) \<and> ownerId l = oid u
      \<and> validateListing (assignFields l b) = []
      \<and> r = succeed 200 ''Listing updated successfully'' (savedListing now l (assignFields l b))
      \<and> d' = d\<lparr>listings := replaceDoc (savedListing now l (assignFields l b)) (listings d)\<rparr>"
proof (cases "findById (listings d) i")
  case (Inl e)
  with assms show ?thesis
    by (cases e) (auto simp: updateListing_def failure_def)
next
  case (Inr loaded)
  show ?thesis
  proof (cases loaded)
    case None
    with Inr assms show ?thesis
      by (auto simp: updateListing_def failure_def)
  next
    case (Some l)
    with Inr assms show ?thesis
      by (auto simp: updateListing_def failure_def Listing_save_def Let_def saveMessages_Nil
          split: if_splits)
  qed
qed

lemma stored_after_update:
  assumes l: "findById (listings d) i = Inr (Some l)"
  shows "findById (listings (d\<lparr>listings := replaceDoc (savedListing now l (assignFields l b))
                                              (listings d)\<rparr>)) i
           = Inr (Some (savedListing now l (assignFields l b)))"
proof -
  from findById_Some_oid [OF l] have c: "castObjectId i = Some (oid l)"
    and f: "find (\<lambda>x. oid x = oid l) (listings d) = Some l"
    by simp_all
  have "oid (savedListing now l (assignFields l b)) = oid l"
    by (simp add: savedListing_fields assignFields_frame)
  from find_replaceDoc [OF f this] show ?thesis
    by (simp add: findById_def c)
qed

lemma replaceDoc_sampleListing:
  "oid l = ''bbbbbbbbbbbbbbbbbbbbbbb1'' \<Longrightarrow> replaceDoc l (listings sampleDb) = [l]"
  by (simp add: replaceDoc_def sampleDb_def sampleListing_def)

lemma updateListing_emptyBody:
  "updateListing 9 sampleDb sampleOwner ''bbbbbbbbbbbbbbbbbbbbbbb1'' emptyBody
     = (succeed 200 ''Listing updated successfully'' sampleListing, sampleDb)"
proof -
  have a: "assignFields sampleListing emptyBody = sampleListing"
    by (simp add: assignFields_def emptyBody_def)
  have d: "sampleDb\<lparr>listings := replaceDoc sampleListing (listings sampleDb)\<rparr> = sampleDb"
    by (simp add: sampleDb_def replaceDoc_def)
  have p: "bodyPrice emptyBody = Absent" "bodyType emptyBody = Absent"
    by (simp_all add: emptyBody_def)
  have s: "savedListing 9 sampleListing sampleListing = sampleListing"
    by (simp add: savedListing_def touch_def)
  from updateListing_valid [OF findById_sampleListing sampleListing_owner, of emptyBody 9]
  show ?thesis
    by (simp add: p a s d validateListing_sampleListing)
qed

lemma updateListing_retitleBody:
  "updateListing 9 sampleDb sampleOwner ''bbbbbbbbbbbbbbbbbbbbbbb1'' retitleBody
    = (succeed 200 ''Listing updated successfully''
         (sampleListing\<lparr>title := ''Quiet room in Thamel'', updatedAt := 9\<rparr>),
       sampleDb\<lparr>listings := [sampleListing\<lparr>title := ''Quiet room in Thamel'', updatedAt := 9\<rparr>]\<rparr>)"
proof -
  have a: "assignFields sampleListing retitleBody = sampleListing\<lparr>title := ''Quiet room in Thamel''\<rparr>"
    by (simp add: assignFields_def retitleBody_def emptyBody_def trim_def isWhiteSpace_def)
  have v: "validateListing (sampleListing\<lparr>title := ''Quiet room in Thamel''\<rparr>) = []"
    by (simp add: sampleListing_def validateListing_def validateTitle_def validateDescription_def
        validatePrice_def validateLocation_def validateLatitude_def validateLongitude_def
        validateType_def validateImages_def listingTypes_def)
  have p: "bodyPrice retitleBody = Absent" "bodyType retitleBody = Absent"
    by (simp_all add: retitleBody_def emptyBody_def)
  have s: "savedListing 9 sampleListing (sampleListing\<lparr>title := ''Quiet room in Thamel''\<rparr>)
             = sampleListing\<lparr>title := ''Quiet room in Thamel'', updatedAt := 9\<rparr>"
    by (simp add: savedListing_def touch_def sampleListing_def)
  have r: "replaceDoc (sampleListing\<lparr>title := ''Quiet room in Thamel'', updatedAt := 9\<rparr>)
             (listings sampleDb)
            = [sampleListing\<lparr>title := ''Quiet room in Thamel'', updatedAt := 9\<rparr>]"
    by (rule replaceDoc_sampleListing) (simp add: sampleListing_def)
  from updateListing_valid [OF findById_sampleListing sampleListing_owner, of retitleBody 9]
  show ?thesis
    by (simp add: p a v s r)
qed

lemma updateListing_moveBody:
  "updateListing 9 sampleDb sampleOwner ''bbbbbbbbbbbbbbbbbbbbbbb1'' moveBody
    = (succeed 200 ''Listing updated successfully''
         (sampleListing\<lparr>latitude := Val 0, longitude := Null, updatedAt := 9\<rparr>),
       sampleDb\<lparr>listings := [sampleListing\<lparr>latitude := Val 0, longitude := Null, updatedAt := 9\<rparr>]\<rparr>)"
proof -
  have a: "assignFields sampleListing moveBody = sampleListing\<lparr>latitude := Val 0, longitude := Null\<rparr>"
    by (simp add: assignFields_def moveBody_def emptyBody_def)
  have v: "validateListing (sampleListing\<lparr>latitude := Val 0, longitude := Null\<rparr>) = []"
    by (simp add: sampleListing_def validateListing_def validateTitle_def validateDescription_def
        validatePrice_def validateLocation_def validateLatitude_def validateLongitude_def
        validateType_def validateImages_def listingTypes_def)
  have p: "bodyPrice moveBody = Absent" "bodyType moveBody = Absent"
    by (simp_all add: moveBody_def emptyBody_def)
  have s: "savedListing 9 sampleListing (sampleListing\<lparr>latitude := Val 0, longitude := Null\<rparr>)
             = sampleListing\<lparr>latitude := Val 0, longitude := Null, updatedAt := 9\<rparr>"
    by (simp add: savedListing_def touch_def sampleListing_def)
  have r: "replaceDoc (sampleListing\<lparr>latitude := Val 0, longitude := Null, updatedAt := 9\<rparr>)
             (listings sampleDb)
            = [sampleListing\<lparr>latitude := Val 0, longitude := Null, updatedAt := 9\<rparr>]"
    by (rule replaceDoc_sampleListing) (simp add: sampleListing_def)
  from updateListing_valid [OF findById_sampleListing sampleListing_owner, of moveBody 9]
  show ?thesis
    by (simp add: p a v s r)
qed

lemma updateListing_repriceBody:
  "updateListing 9 sampleDb sampleOwner ''bbbbbbbbbbbbbbbbbbbbbbb1'' repriceBody
    = (succeed 200 ''Listing updated successfully'' (sampleListing\<lparr>price := 1200, updatedAt := 9\<rparr>),
       sampleDb\<lparr>listings := [sampleListing\<lparr>price := 1200, updatedAt := 9\<rparr>]\<rparr>)"
proof -
  have a: "assignFields sampleListing repriceBody = sampleListing\<lparr>price := 1200\<rparr>"
    by (simp add: assignFields_def repriceBody_def emptyBody_def)
  have v: "validateListing (sampleListing\<lparr>price := 1200\<rparr>) = []"
    by (simp add: sampleListing_def validateListing_def validateTitle_def validateDescription_def
        validatePrice_def validateLocation_def validateLatitude_def validateLongitude_def
        validateType_def validateImages_def listingTypes_def)
  have p: "bodyPrice repriceBody = Val 1200" "bodyType repriceBody = Absent"
    by (simp_all add: repriceBody_def emptyBody_def)
  have s: "savedListing 9 sampleListing (sampleListing\<lparr>price := 1200\<rparr>)
             = sampleListing\<lparr>price := 1200, updatedAt := 9\<rparr>"
    by (simp add: savedListing_def touch_def sampleListing_def)
  have r: "replaceDoc (sampleListing\<lparr>price := 1200, updatedAt := 9\<rparr>) (listings sampleDb)
            = [sampleListing\<lparr>price := 1200, updatedAt := 9\<rparr>]"
    by (rule replaceDoc_sampleListing) (simp add: sampleListing_def)
  from updateListing_valid [OF findById_sampleListing sampleListing_owner, of repriceBody 9]
  show ?thesis
    by (simp add: p a v s r)
qed

text \<open>
  Claim C9, as amended. After every successful update the stored listing keeps its id,
  its owner, its approval flag and its creation time. Its title, description, price,
  location, type and images keep their value when the body leaves the field out or gives
  a falsy value for it. Its latitude and its longitude keep their value when the body
  leaves the field out; every value that the body gives for them is written, also 0 and
  \<^verbatim>\<open>null\<close>. The other listings, the users, the bookings and the images are untouched.
  Two fields change without being supplied: \<^verbatim>\<open>updatedAt\<close>, which is set to the time of
  the request unless the update leaves all eight fields of the body as they were, and
  the version key \<^verbatim>\<open>__v\<close>, which is incremented when the images are replaced by
  another array.
\<close>

theorem updateListing_frame:
  assumes "updateListing now d u i b = (r, d')" and "httpStatus r = 200"
  shows "\<exists>l l'. findById (listings d) i = Inr (Some l) \<and> ownerId l = oid u \<and> data r = Some l'
      \<and> oid l' = oid l \<and> createdAt l' = createdAt l
      \<and> isApproved l' = isApproved l \<and> ownerId l' = ownerId l
      \<and> updatedAt l' \<in> {updatedAt l, now}
      \<and> (\<not> truthyStr (bodyTitle b) \<longrightarrow> title l' = title l)
      \<and> (\<not> truthyStr (bodyDescription b) \<longrightarrow> description l' = description l)
      \<and> (\<not> truthyNum (bodyPrice b) \<longrightarrow> price l' = price l)
      \<and> (\<not> truthyStr (bodyLocation b) \<longrightarrow> location l' = location l)
      \<and> (bodyLatitude b = Absent \<longrightarrow> latitude l' = latitude l)
      \<and> (bodyLongitude b = Absent \<longrightarrow> longitude l' = longitude l)
      \<and> (\<not> truthyStr (bodyType b) \<longrightarrow> type l' = type l)
      \<and> (\<not> truthyArr (bodyImages b) \<longrightarrow> images l' = images l)
      \<and> listings d' = replaceDoc l' (listings d)
      \<and> users d' = users d \<and> bookings d' = bookings d \<and> cloud d' = cloud d
      \<and> (bodyLatitude b \<noteq> Absent \<longrightarrow> latitude l' = bodyLatitude b)
      \<and> (bodyLongitude b \<noteq> Absent \<longrightarrow> longitude l' = bodyLongitude b)
      \<and> (l' = l \<or> updatedAt l' = now)
      \<and> versionKey l' = (if images l' = images l then versionKey l else versionKey l + 1)
      \<and> updatedAt l'
          = (if title l' = title l \<and> description l' = description l \<and> price l' = price l
                \<and> location l' = location l \<and> latitude l' = latitude l
                \<and> longitude l' = longitude l \<and> type l' = type l \<and> images l' = images l
             then updatedAt l else now)"
proof -
  from updateListing_success [OF assms] obtain l where
    l: "findById (listings d) i = Inr (Some l)" "ownerId l = oid u"
    and r: "r = succeed 200 ''Listing updated successfully'' (savedListing now l (assignFields l b))"
    and d': "d' = d\<lparr>listings := replaceDoc (savedListing now l (assignFields l b)) (listings d)\<rparr>"
    by blast
  let ?l' = "savedListing now l (assignFields l b)"
  have dt: "data r = Some ?l'"
    by (simp add: r succeed_def)
  have keep: "oid ?l' = oid l" "createdAt ?l' = createdAt l" "isApproved ?l' = isApproved l"
    "ownerId ?l' = ownerId l"
    by (simp_all add: savedListing_fields assignFields_frame)
  have frame: "\<not> truthyStr (bodyTitle b) \<longrightarrow> title ?l' = title l"
    "\<not> truthyStr (bodyDescription b) \<longrightarrow> description ?l' = description l"
    "\<not> truthyNum (bodyPrice b) \<longrightarrow> price ?l' = price l"
    "\<not> truthyStr (bodyLocation b) \<longrightarrow> location ?l' = location l"
    "bodyLatitude b = Absent \<longrightarrow> latitude ?l' = latitude l"
    "bodyLongitude b = Absent \<longrightarrow> longitude ?l' = longitude l"
    "\<not> truthyStr (bodyType b) \<longrightarrow> type ?l' = type l"
    "\<not> truthyArr (bodyImages b) \<longrightarrow> images ?l' = images l"
    by (simp_all add: savedListing_fields assignFields_frame)
  have written: "bodyLatitude b \<noteq> Absent \<longrightarrow> latitude ?l' = bodyLatitude b"
    "bodyLongitude b \<noteq> Absent \<longrightarrow> longitude ?l' = bodyLongitude b"
    by (simp_all add: savedListing_fields assignFields_written)
  have store: "listings d' = replaceDoc ?l' (listings d)" "users d' = users d"
    "bookings d' = bookings d" "cloud d' = cloud d"
    by (simp_all add: d')
  have stamp: "updatedAt ?l' \<in> {updatedAt l, now}" "?l' = l \<or> updatedAt ?l' = now"
    by (rule savedListing_maintained(1), rule savedListing_maintained(2))
  have "versionKey (assignFields l b) = versionKey l"
    by (rule assignFields_frame)
  from savedListing_maintained(3) [OF this, of now]
  have version: "versionKey ?l' = (if images ?l' = images l then versionKey l else versionKey l + 1)"
    by (simp only: savedListing_fields)
  have "updatedAt (assignFields l b) = updatedAt l"
    by (rule assignFields_frame)
  from savedListing_updatedAt [OF this, of now]
  have modified: "updatedAt ?l'
          = (if title ?l' = title l \<and> description ?l' = description l \<and> price ?l' = price l
                \<and> location ?l' = location l \<and> latitude ?l' = latitude l
                \<and> longitude ?l' = longitude l \<and> type ?l' = type l \<and> images ?l' = images l
             then updatedAt l else now)"
    by (simp only: savedListing_fields assignFields_unchanged)
  show ?thesis
    by (intro exI[of _ l] exI[of _ ?l'] conjI)
       (rule l dt keep frame written store stamp version modified)+
qed

theorem updateListing_frame_witness:
  "\<exists>l'. data (fst (updateListing 9 sampleDb sampleOwner ''bbbbbbbbbbbbbbbbbbbbbbb1'' moveBody))
           = Some l'
     \<and> isApproved l' = isApproved sampleListing \<and> ownerId l' = oid sampleOwner
     \<and> createdAt l' = 4 \<and> price l' = 1000 \<and> title l' = ''Cozy room in Thamel''
     \<and> latitude l' = Val 0 \<and> longitude l' = Null \<and> updatedAt l' = 9 \<and> versionKey l' = 0"
proof -
  let ?res = "updateListing 9 sampleDb sampleOwner ''bbbbbbbbbbbbbbbbbbbbbbb1'' moveBody"
  have e: "?res = (fst ?res, snd ?res)"
    by simp
  have ok: "httpStatus (fst ?res) = 200"
    by (simp add: updateListing_moveBody succeed_def)
  from updateListing_frame [OF e ok] obtain l l' where
    f: "findById (listings sampleDb) ''bbbbbbbbbbbbbbbbbbbbbbb1'' = Inr (Some l)"
    and d: "data (fst ?res) = Some l'"
    and k: "isApproved l' = isApproved l" "ownerId l' = ownerId l" "createdAt l' = createdAt l"
    and n: "\<not> truthyNum (bodyPrice moveBody) \<longrightarrow> price l' = price l"
      "\<not> truthyStr (bodyTitle moveBody) \<longrightarrow> title l' = title l"
      "\<not> truthyArr (bodyImages moveBody) \<longrightarrow> images l' = images l"
    and w: "bodyLatitude moveBody \<noteq> Absent \<longrightarrow> latitude l' = bodyLatitude moveBody"
      "bodyLongitude moveBody \<noteq> Absent \<longrightarrow> longitude l' = bodyLongitude moveBody"
    and t: "l' = l \<or> updatedAt l' = 9"
    and v: "versionKey l' = (if images l' = images l then versionKey l else versionKey l + 1)"
    by (elim exE conjE) (rule that, assumption+)
  from f have l: "l = sampleListing"
    by (simp add: findById_sampleListing)
  have m: "bodyPrice moveBody = Absent" "bodyTitle moveBody = Absent" "bodyImages moveBody = Absent"
    "bodyLatitude moveBody = Val 0" "bodyLongitude moveBody = Null"
    by (simp_all add: moveBody_def emptyBody_def)
  have s: "isApproved sampleListing" "ownerId sampleListing = oid sampleOwner"
    "createdAt sampleListing = 4" "price sampleListing = 1000"
    "title sampleListing = ''Cozy room in Thamel''" "latitude sampleListing = Absent"
    "versionKey sampleListing = 0"
    by (simp_all add: sampleListing_def sampleOwner_def)
  from n m l have kept: "price l' = price sampleListing" "title l' = title sampleListing"
    "images l' = images sampleListing"
    by simp_all
  from w m have moved: "latitude l' = Val 0" "longitude l' = Null"
    by simp_all
  from t l moved(1) s(6) have "updatedAt l' = 9"
    by auto
  moreover from v l kept(3) have "versionKey l' = versionKey sampleListing"
    by simp
  ultimately show ?thesis
    using d k kept moved l s by (intro exI[of _ l']) simp
qed

text \<open>
  The claim as it is written speaks of all fields. The body below supplies a title and
  nothing else; the stored listing had \<^verbatim>\<open>updatedAt\<close> 4 and has 9 afterwards.
\<close>

theorem updateListing_updatedAt_counterexample:
  "bodyTitle retitleBody = Val ''Quiet room in Thamel''
   \<and> updateListing 9 sampleDb sampleOwner ''bbbbbbbbbbbbbbbbbbbbbbb1'' retitleBody
    = (succeed 200 ''Listing updated successfully''
         (sampleListing\<lparr>title := ''Quiet room in Thamel'', updatedAt := 9\<rparr>),
       sampleDb\<lparr>listings := [sampleListing\<lparr>title := ''Quiet room in Thamel'', updatedAt := 9\<rparr>]\<rparr>)
   \<and> updatedAt sampleListing = 4"
  by (simp add: updateListing_retitleBody) (simp add: retitleBody_def sampleListing_def)

lemma updateListing_withoutFalsyText:
  "updateListing now d u i (withoutFalsyText b) = updateListing now d u i b"
proof -
  have a: "assignFields l (withoutFalsyText b) = assignFields l b" for l
    by (simp add: assignFields_def withoutFalsyText_def Let_def)
  have t: "(truthyStr (bodyType (withoutFalsyText b)) \<and> \<not> includesType (bodyType (withoutFalsyText b)))
      = (truthyStr (bodyType b) \<and> \<not> includesType (bodyType b))"
    by (simp add: withoutFalsyText_def)
  have p: "bodyPrice (withoutFalsyText b) = bodyPrice b"
    by (simp add: withoutFalsyText_def)
  show ?thesis
    unfolding updateListing_def a t p ..
qed

lemma updateListing_price_kept:
  assumes l: "findById (listings d) i = Inr (Some l)" and o: "ownerId l = oid u"
    and p: "bodyPrice b = Absent"
  shows "\<exists>l'. findById (listings (snd (updateListing now d u i b))) i = Inr (Some l')
            \<and> price l' = price l"
proof -
  let ?l' = "savedListing now l (assignFields l b)"
  from p have "bodyPrice b = Absent \<or> \<not> leZero (bodyPrice b)"
    by simp
  from updateListing_owner [OF l o this, of now]
  show ?thesis
  proof
    assume "updateListing now d u i b
              = (succeed 200 ''Listing updated successfully'' ?l',
                 d\<lparr>listings := replaceDoc ?l' (listings d)\<rparr>)"
    moreover have "price ?l' = price l"
      using p by (simp add: savedListing_fields assignFields_frame)
    ultimately show ?thesis
      using stored_after_update [OF l, of now b] by simp
  next
    assume "httpStatus (fst (updateListing now d u i b)) = 400
              \<and> snd (updateListing now d u i b) = d"
    with l show ?thesis
      by simp
  qed
qed

lemma updateListing_price_written:
  assumes l: "findById (listings d) i = Inr (Some l)" and o: "ownerId l = oid u"
    and p: "bodyPrice b = Val p" "0 < p"
  shows "(\<exists>l'. updateListing now d u i b
                 = (succeed 200 ''Listing updated successfully'' l',
                    d\<lparr>listings := replaceDoc l' (listings d)\<rparr>)
             \<and> findById (listings (snd (updateListing now d u i b))) i = Inr (Some l')
             \<and> price l' = p)
       \<or> httpStatus (fst (updateListing now d u i b)) = 400 \<and> snd (updateListing now d u i b) = d"
proof -
  let ?l' = "savedListing now l (assignFields l b)"
  from p have "bodyPrice b = Absent \<or> \<not> leZero (bodyPrice b)"
    by simp
  from updateListing_owner [OF l o this, of now]
  show ?thesis
  proof
    assume e: "updateListing now d u i b
              = (succeed 200 ''Listing updated successfully'' ?l',
                 d\<lparr>listings := replaceDoc ?l' (listings d)\<rparr>)"
    have "price ?l' = p"
      using p by (simp add: savedListing_fields assignFields_written)
    moreover have "findById (listings (snd (updateListing now d u i b))) i = Inr (Some ?l')"
      using stored_after_update [OF l, of now b] e by simp
    ultimately show ?thesis
      using e by blast
  next
    assume "httpStatus (fst (updateListing now d u i b)) = 400
              \<and> snd (updateListing now d u i b) = d"
    then show ?thesis
      by blast
  qed
qed

text \<open>
  Claim C6, as amended. For an existing listing and its owner as caller: an update whose
  price is 0, negative or null is answered with 400 ``Price must be a positive number''
  and changes nothing; an update without a price leaves the stored price as it is,
  whatever the answer; and an empty or null title, description, location or type is
  treated as not supplied: the update gives the same answer and the same store as the
  update with these fields left out. A supplied price is never skipped: a price above 0
  is written to the stored listing when the update is answered with 200, and otherwise
  the update is answered with 400 and changes nothing.
\<close>

theorem updateListing_price_and_falsy_fields:
  assumes "findById (listings d) i = Inr (Some l)" and "ownerId l = oid u"
  shows "(bodyPrice b = Null \<or> (\<exists>p. bodyPrice b = Val p \<and> p \<le> 0) \<longrightarrow>
            updateListing now d u i b = (failure 400 ''Price must be a positive number'', d))
     \<and> (bodyPrice b = Absent \<longrightarrow>
            (\<exists>l'. findById (listings (snd (updateListing now d u i b))) i = Inr (Some l')
                 \<and> price l' = price l))
     \<and> updateListing now d u i (withoutFalsyText b) = updateListing now d u i b
     \<and> (\<forall>p. bodyPrice b = Val p \<and> 0 < p \<longrightarrow>
            (\<exists>l'. updateListing now d u i b
                     = (succeed 200 ''Listing updated successfully'' l',
                        d\<lparr>listings := replaceDoc l' (listings d)\<rparr>)
                 \<and> findById (listings (snd (updateListing now d u i b))) i = Inr (Some l')
                 \<and> price l' = p)
            \<or> httpStatus (fst (updateListing now d u i b)) = 400
              \<and> snd (updateListing now d u i b) = d)"
proof (intro conjI impI allI)
  assume "bodyPrice b = Null \<or> (\<exists>p. bodyPrice b = Val p \<and> p \<le> 0)"
  with assms show "updateListing now d u i b = (failure 400 ''Price must be a positive number'', d)"
    by (auto simp: updateListing_def)
next
  assume "bodyPrice b = Absent"
  with assms show "\<exists>l'. findById (listings (snd (updateListing now d u i b))) i = Inr (Some l')
                 \<and> price l' = price l"
    by (rule updateListing_price_kept)
next
  show "updateListing now d u i (withoutFalsyText b) = updateListing now d u i b"
    by (rule updateListing_withoutFalsyText)
next
  fix p
  assume "bodyPrice b = Val p \<and> 0 < p"
  then have "bodyPrice b = Val p" "0 < p"
    by simp_all
  with assms show "(\<exists>l'. updateListing now d u i b
                     = (succeed 200 ''Listing updated successfully'' l',
                        d\<lparr>listings := replaceDoc l' (listings d)\<rparr>)
                 \<and> findById (listings (snd (updateListing now d u i b))) i = Inr (Some l')
                 \<and> price l' = p)
            \<or> httpStatus (fst (updateListing now d u i b)) = 400
              \<and> snd (updateListing now d u i b) = d"
    by (rule updateListing_price_written)
qed

theorem updateListing_price_and_falsy_fields_witness:
  "updateListing 9 sampleDb sampleOwner ''bbbbbbbbbbbbbbbbbbbbbbb1'' (emptyBody\<lparr>bodyPrice := Val 0\<rparr>)
       = (failure 400 ''Price must be a positive number'', sampleDb)
   \<and> (\<exists>l'. findById (listings (snd (updateListing 9 sampleDb sampleOwner
                 ''bbbbbbbbbbbbbbbbbbbbbbb1'' retitleBody))) ''bbbbbbbbbbbbbbbbbbbbbbb1''
               = Inr (Some l') \<and> price l' = 1000)
   \<and> updateListing 9 sampleDb sampleOwner ''bbbbbbbbbbbbbbbbbbbbbbb1''
        (emptyBody\<lparr>bodyTitle := Val [], bodyLocation := Null\<rparr>)
       = (succeed 200 ''Listing updated successfully'' sampleListing, sampleDb)
   \<and> (\<exists>l'. findById (listings (snd (updateListing 9 sampleDb sampleOwner
                 ''bbbbbbbbbbbbbbbbbbbbbbb1'' repriceBody))) ''bbbbbbbbbbbbbbbbbbbbbbb1''
               = Inr (Some l') \<and> price l' = 1200)"
proof -
  have w: "withoutFalsyText (emptyBody\<lparr>bodyTitle := Val [], bodyLocation := Null\<rparr>) = emptyBody"
    by (simp add: withoutFalsyText_def emptyBody_def)
  have p: "price sampleListing = 1000"
    by (simp add: sampleListing_def)
  note T = updateListing_price_and_falsy_fields [OF findById_sampleListing sampleListing_owner]
  have a: "updateListing 9 sampleDb sampleOwner ''bbbbbbbbbbbbbbbbbbbbbbb1''
        (emptyBody\<lparr>bodyPrice := Val 0\<rparr>)
       = (failure 400 ''Price must be a positive number'', sampleDb)"
    using T [of "emptyBody\<lparr>bodyPrice := Val 0\<rparr>" 9] by simp
  have b: "\<exists>l'. findById (listings (snd (updateListing 9 sampleDb sampleOwner
                 ''bbbbbbbbbbbbbbbbbbbbbbb1'' retitleBody))) ''bbbbbbbbbbbbbbbbbbbbbbb1''
               = Inr (Some l') \<and> price l' = 1000"
    using T [of retitleBody 9] by (simp add: p retitleBody_def emptyBody_def)
  have c: "updateListing 9 sampleDb sampleOwner ''bbbbbbbbbbbbbbbbbbbbbbb1''
        (emptyBody\<lparr>bodyTitle := Val [], bodyLocation := Null\<rparr>)
       = (succeed 200 ''Listing updated successfully'' sampleListing, sampleDb)"
    using T [of "emptyBody\<lparr>bodyTitle := Val [], bodyLocation := Null\<rparr>" 9]
    by (simp add: w updateListing_emptyBody)
  have q: "bodyPrice repriceBody = Val 1200"
    by (simp add: repriceBody_def)
  have s: "httpStatus (fst (updateListing 9 sampleDb sampleOwner ''bbbbbbbbbbbbbbbbbbbbbbb1''
             repriceBody)) \<noteq> 400"
    by (simp add: updateListing_repriceBody succeed_def)
  have e: "\<exists>l'. findById (listings (snd (updateListing 9 sampleDb sampleOwner
                 ''bbbbbbbbbbbbbbbbbbbbbbb1'' repriceBody))) ''bbbbbbbbbbbbbbbbbbbbbbb1''
               = Inr (Some l') \<and> price l' = 1200"
    using T [of repriceBody 9] q s by auto
  show ?thesis
    using a b c e by blast
qed

text \<open>
  The claim as it is written counts the price among the fields whose falsy value is
  skipped. A null price is falsy; the update is answered with 400, whereas the same
  update without a price is answered with 200.
\<close>

theorem updateListing_null_price_counterexample:
  "\<not> truthyNum (bodyPrice (emptyBody\<lparr>bodyPrice := Null\<rparr>))
   \<and> updateListing 9 sampleDb sampleOwner ''bbbbbbbbbbbbbbbbbbbbbbb1'' (emptyBody\<lparr>bodyPrice := Null\<rparr>)
       = (failure 400 ''Price must be a positive number'', sampleDb)
   \<and> updateListing 9 sampleDb sampleOwner ''bbbbbbbbbbbbbbbbbbbbbbb1'' emptyBody
       = (succeed 200 ''Listing updated successfully'' sampleListing, sampleDb)"
  by (simp add: updateListing_emptyBody)
     (simp add: updateListing_def findById_sampleListing sampleListing_owner)

section \<open>Browsing the approved listings\<close>

text \<open>The executable search agrees with the wording of the spec.\<close>

lemma startsWithCI_iff:
  "startsWithCI p s \<longleftrightarrow> (\<exists>v. toLowerCase s = toLowerCase p @ v)"
proof (induction p s rule: startsWithCI.induct)
  case (1 s) show ?case by (simp add: toLowerCase_def)
next
  case (2 a as) show ?case by (simp add: toLowerCase_def)
next
  case (3 a as c cs) then show ?case by (auto simp: toLowerCase_def)
qed

lemma containsCI_iff:
  "containsCI p s \<longleftrightarrow> (\<exists>u v. toLowerCase s = u @ toLowerCase p @ v)"
proof (induction s)
  case Nil
  show ?case by (auto simp: startsWithCI_iff toLowerCase_def)
next
  case (Cons c cs)
  show ?case
  proof
    assume "containsCI p (c # cs)"
    then consider "startsWithCI p (c # cs)" | "containsCI p cs" by auto
    then show "\<exists>u v. toLowerCase (c # cs) = u @ toLowerCase p @ v"
    proof cases
      case 1
      then obtain v where "toLowerCase (c # cs) = toLowerCase p @ v" by (auto simp: startsWithCI_iff)
      then have "toLowerCase (c # cs) = [] @ toLowerCase p @ v" by simp
      then show ?thesis by blast
    next
      case 2
      with Cons obtain u v where "toLowerCase cs = u @ toLowerCase p @ v" by auto
      then have "toLowerCase (c # cs) = (toLowerCaseChar c # u) @ toLowerCase p @ v"
        by (simp add: toLowerCase_def)
      then show ?thesis by blast
    qed
  next
    assume "\<exists>u v. toLowerCase (c # cs) = u @ toLowerCase p @ v"
    then obtain u v where uv: "toLowerCase (c # cs) = u @ toLowerCase p @ v" by auto
    show "containsCI p (c # cs)"
    proof (cases u)
      case Nil
      with uv have "startsWithCI p (c # cs)" by (auto simp: startsWithCI_iff)
      then show ?thesis by simp
    next
      case (Cons x u')
      with uv have "toLowerCase cs = u' @ toLowerCase p @ v" by (simp add: toLowerCase_def)
      with Cons.IH have "containsCI p cs" by auto
      then show ?thesis by simp
    qed
  qed
qed

lemma matchesAt_literal:
  "CHR ''.'' \<notin> set p \<Longrightarrow> matchesAt p s = startsWithCI p s"
  by (induction p s rule: matchesAt.induct) (auto simp: atomMatches_def)

lemma matchesSomewhere_literal:
  "CHR ''.'' \<notin> set p \<Longrightarrow> matchesSomewhere p s = containsCI p s"
  by (induction s) (simp_all add: matchesAt_literal)

lemma fragmentRegExp_literal:
  assumes "CHR ''.'' \<notin> set p" "\<not> list_ex (\<lambda>c. c \<in> set regExpSpecial) p"
  shows "\<exists>m. fragmentRegExp p = Some m \<and> (\<forall>s. m s = containsCI p s)"
  using assms by (simp add: fragmentRegExp_def matchesSomewhere_literal)

lemma count_list_insort_key: "count_list (insort_key f x xs) y = count_list (x # xs) y"
  by (induction xs) auto

lemma count_list_sort_key: "count_list (sort_key f xs) y = count_list xs y"
  by (induction xs) (auto simp: count_list_insort_key)

lemma sortNewestFirst_count: "count_list (sortNewestFirst xs) y = count_list xs y"
  by (simp add: sortNewestFirst_def count_list_sort_key)

lemma sortNewestFirst_sorted:
  "sorted_wrt (\<lambda>a b. createdAt b \<le> createdAt a) (sortNewestFirst xs)"
proof -
  have "sorted (map createdAt (sort_key createdAt xs))" by (rule sorted_sort_key)
  then have "sorted_wrt (\<lambda>a b. createdAt a \<le> createdAt b) (sort_key createdAt xs)"
    by (simp add: sorted_map)
  then show ?thesis
    by (simp add: sortNewestFirst_def sorted_wrt_rev)
qed

lemma buildQuery_supported:
  assumes "truthyQuery (querySearch f) \<longrightarrow>
             regExp (queryString (querySearch f)) = Some m
             \<and> (\<forall>s. m s = containsCI (queryString (querySearch f)) s)"
    and "truthyQuery (queryMinPrice f) \<longrightarrow> toNumber (queryString (queryMinPrice f)) = Some lo"
    and "truthyQuery (queryMaxPrice f) \<longrightarrow> toNumber (queryString (queryMaxPrice f)) = Some hi"
  shows "\<exists>q. buildQuery regExp toNumber f = Inr q
           \<and> q_price_gte q \<noteq> Some None \<and> q_price_lte q \<noteq> Some None
           \<and> (\<forall>l. satisfies q l = wanted f lo hi l)"
  using assms
  by (cases "truthyQuery (querySearch f)"; cases "truthyQuery (queryMinPrice f)";
      cases "truthyQuery (queryMaxPrice f)"; cases "queryType f")
     (auto simp: buildQuery_def satisfies_def wanted_def Let_def)

lemma wanted_thamel:
  "wanted thamelFilters 400 1000 sampleListing" "wanted thamelFilters 400 1000 hostelListing"
  "\<not> wanted thamelFilters 400 1000 flatListing" "\<not> wanted thamelFilters 400 1000 pendingListing"
  by (simp_all add: wanted_def thamelFilters_def sampleListing_def hostelListing_def flatListing_def
      pendingListing_def toLowerCaseChar_def)

lemma decimalNumber_samples: "decimalNumber ''400'' = Some 400" "decimalNumber ''1000'' = Some 1000"
  by (simp_all add: decimalNumber_def digitOf_def)

lemma populateOwner_sampleListing:
  "populateOwner sampleDb sampleListing
     = (sampleListing, Some (''aaaaaaaaaaaaaaaaaaaaaaa1'', ''Omar Owner'', ''omar@example.com''))"
  by (simp add: populateOwner_def populateUser_def sampleDb_def sampleListing_def sampleOwner_def)

text \<open>
  Claim C5, as amended. Let the search string, when it is supplied, be one that the
  regular expression engine reads literally (a string without special characters), and
  let \<^verbatim>\<open>minPrice\<close> and \<^verbatim>\<open>maxPrice\<close>, when they are supplied, be numeric strings. Then
  \<^verbatim>\<open>getAllListings\<close> answers 200 with exactly the approved listings that satisfy
  every supplied filter, each as often as it is stored: the type is equal unless the
  filter is ``All''; the price lies within the bounds, inclusively; the title or the
  location contains the search string case-insensitively. The result is ordered from
  the newest to the oldest creation time. A filter that is the empty string counts as
  not supplied.
\<close>

theorem getAllListings_filters:
  assumes "truthyQuery (querySearch f) \<longrightarrow>
             regExp (queryString (querySearch f)) = Some m
             \<and> (\<forall>s. m s = containsCI (queryString (querySearch f)) s)"
    and "truthyQuery (queryMinPrice f) \<longrightarrow> toNumber (queryString (queryMinPrice f)) = Some lo"
    and "truthyQuery (queryMaxPrice f) \<longrightarrow> toNumber (queryString (queryMaxPrice f)) = Some hi"
  shows "\<exists>ls. getAllListings regExp toNumber d f = (listed (map (populateOwner d) ls), d)
      \<and> (\<forall>l. count_list ls l = count_list (filter (wanted f lo hi) (listings d)) l)
      \<and> set ls = {l \<in> set (listings d). wanted f lo hi l}
      \<and> sorted_wrt (\<lambda>a b. createdAt b \<le> createdAt a) ls"
proof -
  from assms have "\<exists>q. buildQuery regExp toNumber f = Inr q
           \<and> q_price_gte q \<noteq> Some None \<and> q_price_lte q \<noteq> Some None
           \<and> (\<forall>l. satisfies q l = wanted f lo hi l)"
    by (rule buildQuery_supported)
  then obtain q where
    q: "buildQuery regExp toNumber f = Inr q" "q_price_gte q \<noteq> Some None" "q_price_lte q \<noteq> Some None"
    and s: "\<And>l. satisfies q l = wanted f lo hi l"
    by blast
  have sw: "satisfies q = wanted f lo hi" using s by (intro ext)
  let ?ls = "sortNewestFirst (filter (wanted f lo hi) (listings d))"
  have "getAllListings regExp toNumber d f = (listed (map (populateOwner d) ?ls), d)"
    using q by (simp add: getAllListings_def Listing_find_def sw)
  moreover have "set ?ls = {l \<in> set (listings d). wanted f lo hi l}"
    by (simp add: sortNewestFirst_def)
  ultimately show ?thesis
    using sortNewestFirst_count sortNewestFirst_sorted by blast
qed

theorem getAllListings_filters_witness:
  "\<exists>ls. getAllListings fragmentRegExp decimalNumber browseDb thamelFilters
          = (listed (map (populateOwner browseDb) ls), browseDb)
       \<and> set ls = {sampleListing, hostelListing}
       \<and> sorted_wrt (\<lambda>a b. createdAt b \<le> createdAt a) ls"
proof -
  have "CHR ''.'' \<notin> set ''thamel''" "\<not> list_ex (\<lambda>c. c \<in> set regExpSpecial) ''thamel''"
    by (simp_all add: regExpSpecial_def)
  then have "\<exists>m. fragmentRegExp ''thamel'' = Some m \<and> (\<forall>s. m s = containsCI ''thamel'' s)"
    by (rule fragmentRegExp_literal)
  then obtain m where m: "fragmentRegExp ''thamel'' = Some m" "\<forall>s. m s = containsCI ''thamel'' s"
    by blast
  have h1: "truthyQuery (querySearch thamelFilters) \<longrightarrow>
             fragmentRegExp (queryString (querySearch thamelFilters)) = Some m
             \<and> (\<forall>s. m s = containsCI (queryString (querySearch thamelFilters)) s)"
    using m by (simp add: thamelFilters_def)
  have h2: "truthyQuery (queryMinPrice thamelFilters) \<longrightarrow>
             decimalNumber (queryString (queryMinPrice thamelFilters)) = Some 400"
    by (simp add: thamelFilters_def decimalNumber_samples)
  have h3: "truthyQuery (queryMaxPrice thamelFilters) \<longrightarrow>
             decimalNumber (queryString (queryMaxPrice thamelFilters)) = Some 1000"
    by (simp add: thamelFilters_def decimalNumber_samples)
  have s: "{l \<in> set (listings browseDb). wanted thamelFilters 400 1000 l} = {sampleListing, hostelListing}"
    using wanted_thamel by (auto simp: browseDb_def)
  show ?thesis
    using getAllListings_filters [of thamelFilters fragmentRegExp m decimalNumber 400 1000 browseDb, OF h1 h2 h3]
    unfolding s by blast
qed

text \<open>
  The claim as it is written speaks of every search string. The search string is
  compiled as a regular expression: for the search \<^verbatim>\<open>.\<close> the sample listing is
  returned, although neither its title nor its location contains a dot.
\<close>

theorem getAllListings_regex_counterexample:
  "getAllListings fragmentRegExp decimalNumber sampleDb dotFilters
     = (listed [(sampleListing, Some (''aaaaaaaaaaaaaaaaaaaaaaa1'', ''Omar Owner'', ''omar@example.com''))],
        sampleDb)
   \<and> \<not> containsCI ''.'' (title sampleListing) \<and> \<not> containsCI ''.'' (location sampleListing)"
proof -
  have q: "buildQuery fragmentRegExp decimalNumber dotFilters
     = Inr \<lparr>q_isApproved = True, q_type = None, q_price_gte = None, q_price_lte = None,
            q_or = Some (matchesSomewhere ''.'')\<rparr>"
    by (simp add: buildQuery_def dotFilters_def fragmentRegExp_def regExpSpecial_def)
  have m: "matchesSomewhere ''.'' (title sampleListing)"
    by (simp add: sampleListing_def atomMatches_def)
  have a: "isApproved sampleListing" by (simp add: sampleListing_def)
  have l: "listings sampleDb = [sampleListing]" by (simp add: sampleDb_def)
  have n: "\<not> containsCI ''.'' (title sampleListing)" "\<not> containsCI ''.'' (location sampleListing)"
    by (simp_all add: sampleListing_def toLowerCaseChar_def)
  have "getAllListings fragmentRegExp decimalNumber sampleDb dotFilters
     = (listed [populateOwner sampleDb sampleListing], sampleDb)"
    by (simp add: getAllListings_def q Listing_find_def l satisfies_def m a sortNewestFirst_def)
  with n show ?thesis by (simp add: populateOwner_sampleListing)
qed

section \<open>The matcher and the language of a pattern\<close>

lemma nullable_lang: "nullable r \<longleftrightarrow> [] \<in> lang r"
  by (induction r) (auto simp: conc_def intro: kleene_empty)

lemma lang_alt: "lang (alt r s) = lang r \<union> lang s"
  by (induction r s rule: alt.induct) auto

lemma lang_seq: "lang (seq r s) = conc (lang r) (lang s)"
  by (induction r s rule: seq.induct) (auto simp: conc_def)

lemma conc_cons:
  "c # w \<in> conc A B \<longleftrightarrow> ([] \<in> A \<and> c # w \<in> B) \<or> (\<exists>u v. w = u @ v \<and> c # u \<in> A \<and> v \<in> B)"
proof
  assume "c # w \<in> conc A B"
  then obtain u v where uv: "c # w = u @ v" "u \<in> A" "v \<in> B"
    by (auto simp: conc_def)
  show "([] \<in> A \<and> c # w \<in> B) \<or> (\<exists>u v. w = u @ v \<and> c # u \<in> A \<and> v \<in> B)"
  proof (cases u)
    case Nil
    with uv show ?thesis by simp
  next
    case (Cons x u')
    with uv have "w = u' @ v" "c # u' \<in> A" by simp_all
    with uv(3) show ?thesis by blast
  qed
next
  assume "([] \<in> A \<and> c # w \<in> B) \<or> (\<exists>u v. w = u @ v \<and> c # u \<in> A \<and> v \<in> B)"
  then show "c # w \<in> conc A B"
  proof
    assume "[] \<in> A \<and> c # w \<in> B"
    then have "[] @ (c # w) \<in> conc A B" unfolding conc_def by blast
    then show ?thesis by simp
  next
    assume "\<exists>u v. w = u @ v \<and> c # u \<in> A \<and> v \<in> B"
    then obtain u v where "w = u @ v" "c # u \<in> A" "v \<in> B" by blast
    then have "(c # u) @ v \<in> conc A B" unfolding conc_def by blast
    with \<open>w = u @ v\<close> show ?thesis by simp
  qed
qed

lemma kleene_cons:
  "c # w \<in> kleene A \<longleftrightarrow> (\<exists>u v. w = u @ v \<and> c # u \<in> A \<and> v \<in> kleene A)"
proof
  assume "c # w \<in> kleene A"
  then show "\<exists>u v. w = u @ v \<and> c # u \<in> A \<and> v \<in> kleene A"
  proof (induction "c # w" arbitrary: w rule: kleene.induct)
    case (kleene_step u v)
    note uA = \<open>u \<in> A\<close> and vK = \<open>v \<in> kleene A\<close> and eq = \<open>u @ v = c # w\<close>
    show ?case
    proof (cases u)
      case Nil
      with eq have "v = c # w" by simp
      then show ?thesis by (rule kleene_step.hyps(3))
    next
      case (Cons x u')
      with eq have "w = u' @ v" "x = c" by simp_all
      with uA vK Cons show ?thesis by blast
    qed
  qed
next
  assume "\<exists>u v. w = u @ v \<and> c # u \<in> A \<and> v \<in> kleene A"
  then obtain u v where "w = u @ v" "c # u \<in> A" "v \<in> kleene A" by blast
  then have "(c # u) @ v \<in> kleene A" by (intro kleene_step)
  with \<open>w = u @ v\<close> show "c # w \<in> kleene A" by simp
qed

lemma deriv_lang: "w \<in> lang (deriv c r) \<longleftrightarrow> c # w \<in> lang r"
proof (induction r arbitrary: w)
  case (Seq r s)
  then show ?case
    by (auto simp: lang_alt lang_seq conc_cons nullable_lang) (auto simp: conc_def)
next
  case (Star r)
  then show ?case
    by (auto simp: lang_seq kleene_cons) (auto simp: conc_def)
qed (auto simp: lang_alt)

lemma test_lang: "test r s \<longleftrightarrow> s \<in> lang r"
  by (induction s arbitrary: r) (simp_all add: nullable_lang deriv_lang)

section \<open>Registration and login\<close>

lemma toLowerCaseChar_idem_enum:
  "list_all (\<lambda>c. toLowerCaseChar (toLowerCaseChar c) = toLowerCaseChar c) Enum.enum"
  by code_simp

lemma toLowerCaseChar_idem: "toLowerCaseChar (toLowerCaseChar c) = toLowerCaseChar c"
  using toLowerCaseChar_idem_enum by (simp add: list_all_iff enum_UNIV)

lemma toLowerCase_idem: "toLowerCase (toLowerCase s) = toLowerCase s"
  by (simp add: toLowerCase_def toLowerCaseChar_idem)

lemma User_findOne_toLowerCase: "User_findOne d (toLowerCase e) = User_findOne d e"
  by (simp add: User_findOne_def toLowerCase_idem)

lemma emailPattern_not_empty: "\<not> test emailPattern []"
  by (simp add: emailPattern_def oneOrMore_def Let_def)

lemma trim_toLowerCase_nonempty: "trim (toLowerCase e) \<noteq> [] \<Longrightarrow> e \<noteq> []"
  by (auto simp: trim_def toLowerCase_def)

lemma emailPattern_mallory: "test emailPattern ''mallory@example.com''"
  by code_simp


lemma normal_mallory: "trim (toLowerCase ''Mallory@Example.com'') = ''mallory@example.com''"
  by (simp add: trim_def toLowerCase_def toLowerCaseChar_def isWhiteSpace_def)




lemma emailPattern_info: "\<not> test emailPattern ''ann@example.info''"
  by code_simp

lemma normal_info: "trim (toLowerCase ''ann@example.info'') = ''ann@example.info''"
  "toLowerCase ''ann@example.info'' = ''ann@example.info''"
  "trim ''Ann Example'' = ''Ann Example''" "trim ''ann@example.info'' = ''ann@example.info''"
  by (simp_all add: trim_def toLowerCase_def toLowerCaseChar_def isWhiteSpace_def)

text \<open>
  Claim C8, as amended. For every registration body with a valid name (2 to 50
  characters after trimming), a password of at least 6 characters, the role Admin and
  an email that is not yet registered and matches the pattern of the schema,
  \<^verbatim>\<open>register\<close> answers 201 and stores a user whose role is Admin. The controller
  takes no caller and its route has no \<^verbatim>\<open>protect\<close>: anyone can register an
  administrator.
\<close>

theorem register_admin:
  assumes "bodyName b = Val n" "2 \<le> length (trim n)" "length (trim n) \<le> 50"
    and "bodyEmail b = Val e" "test emailPattern (trim (toLowerCase e))"
    and "bodyPassword b = Val p" "6 \<le> length p"
    and "bodyRole b = Val ''Admin''"
    and "\<forall>u \<in> set (users d). email u \<noteq> trim (toLowerCase e)"
  shows "\<exists>u. register bcryptHash generateToken now newId d b
            = (succeed 201 ''Registration successful'' (authData generateToken u),
               d\<lparr>users := users d @ [u]\<rparr>)
         \<and> role u = ''Admin'' \<and> oid u = newId \<and> name u = trim n
         \<and> email u = trim (toLowerCase e) \<and> password u = bcryptHash p"
proof -
  let ?u = "\<lparr>oid = newId, createdAt = now, updatedAt = now,
               name = trim n, email = trim (toLowerCase e), password = p, role = ''Admin''\<rparr>"
  have ne: "n \<noteq> []" "p \<noteq> []"
    using assms(2,7) by (auto simp: trim_def)
  have te: "trim (toLowerCase e) \<noteq> []"
    using assms(5) emailPattern_not_empty by auto
  then have e: "e \<noteq> []" by (rule trim_toLowerCase_nonempty)
  have fresh: "find (\<lambda>u. email u = trim (toLowerCase e)) (users d) = None"
    using assms(9) by (intro find_no_match) auto
  then have f1: "User_findOne d (toLowerCase e) = None"
    by (simp add: User_findOne_def toLowerCase_idem)
  have tn: "trim n \<noteq> []"
    using assms(2) by auto
  have v: "validateUser ?u = []"
    using assms(2,3,5,7) te ne tn
    by (simp add: validateUser_def validateName_def validateEmail_def validatePassword_def
        validateRole_def validRoles_def)
  have c: "User_create bcryptHash now newId d n (toLowerCase e) p ''Admin''
      = Inr (?u\<lparr>password := bcryptHash p\<rparr>, d\<lparr>users := users d @ [?u\<lparr>password := bcryptHash p\<rparr>]\<rparr>)"
    using v fresh by (simp add: User_create_def toLowerCase_idem Let_def)
  have "register bcryptHash generateToken now newId d b
      = (succeed 201 ''Registration successful'' (authData generateToken (?u\<lparr>password := bcryptHash p\<rparr>)),
         d\<lparr>users := users d @ [?u\<lparr>password := bcryptHash p\<rparr>]\<rparr>)"
    using assms(1,4,6,7,8) ne e f1 c
    by (simp add: register_def validRoles_def Let_def)
  then show ?thesis
    by (intro exI[of _ "?u\<lparr>password := bcryptHash p\<rparr>"]) simp
qed

theorem register_admin_witness:
  "\<exists>u. register sampleHash sampleToken 9 ''eeeeeeeeeeeeeeeeeeeeeee2'' sampleDb adminBody
          = (succeed 201 ''Registration successful'' (authData sampleToken u),
             sampleDb\<lparr>users := users sampleDb @ [u]\<rparr>)
       \<and> role u = ''Admin'' \<and> email u = ''mallory@example.com''"
proof -
  have t: "trim ''Mallory'' = ''Mallory''"
    by (simp add: trim_def isWhiteSpace_def)
  have h1: "bodyName adminBody = Val ''Mallory''" "bodyEmail adminBody = Val ''Mallory@Example.com''"
    "bodyPassword adminBody = Val ''letmein''" "bodyRole adminBody = Val ''Admin''"
    by (simp_all add: adminBody_def)
  have h2: "2 \<le> length (trim ''Mallory'')" "length (trim ''Mallory'') \<le> 50" "6 \<le> length ''letmein''"
    by (simp_all add: t)
  have h3: "test emailPattern (trim (toLowerCase ''Mallory@Example.com''))"
    unfolding normal_mallory by (rule emailPattern_mallory)
  have h4: "\<forall>u \<in> set (users sampleDb). email u \<noteq> trim (toLowerCase ''Mallory@Example.com'')"
    unfolding normal_mallory
    by (simp add: sampleDb_def sampleOwner_def otherOwner_def sampleTenant_def)
  show ?thesis
    using register_admin [OF h1(1) h2(1,2) h1(2) h3 h1(3) h2(3) h1(4) h4,
        of sampleHash sampleToken 9 "''eeeeeeeeeeeeeeeeeeeeeee2''"]
    unfolding normal_mallory by blast
qed

text \<open>
  The claim as it is written asks of the email only that it is fresh. The pattern of the
  schema admits two or three characters after a dot at the end: the fresh address
  \<^verbatim>\<open>ann@example.info\<close> is rejected by the validator and the answer is 400.
\<close>

theorem register_info_email_counterexample:
  "bodyName infoBody = Val ''Ann Example'' \<and> bodyPassword infoBody = Val ''letmein''
   \<and> bodyRole infoBody = Val ''Admin'' \<and> bodyEmail infoBody = Val ''ann@example.info''
   \<and> User_findOne sampleDb ''ann@example.info'' = None
   \<and> register sampleHash sampleToken 9 ''eeeeeeeeeeeeeeeeeeeeeee2'' sampleDb infoBody
        = (failure 400 ''Please provide a valid email address'', sampleDb)"
proof -
  have f: "User_findOne sampleDb ''ann@example.info'' = None"
    by (simp add: User_findOne_def normal_info sampleDb_def sampleOwner_def otherOwner_def
        sampleTenant_def)
  have v: "validateUser \<lparr>oid = ''eeeeeeeeeeeeeeeeeeeeeee2'', createdAt = 9, updatedAt = 9,
      name = ''Ann Example'', email = ''ann@example.info'', password = ''letmein'', role = ''Admin''\<rparr>
      = [''Please provide a valid email address'']"
    using emailPattern_info
    by (simp add: validateUser_def validateName_def validateEmail_def validatePassword_def
        validateRole_def validRoles_def del: test.simps)
  have c: "User_create sampleHash 9 ''eeeeeeeeeeeeeeeeeeeeeee2'' sampleDb ''Ann Example''
      ''ann@example.info'' ''letmein'' ''Admin''
     = Inl (ValidationError [''Please provide a valid email address''])"
    by (simp add: User_create_def normal_info v Let_def)
  have "register sampleHash sampleToken 9 ''eeeeeeeeeeeeeeeeeeeeeee2'' sampleDb infoBody
        = (failure 400 ''Please provide a valid email address'', sampleDb)"
    by (simp add: register_def infoBody_def normal_info f c validRoles_def Let_def)
  with f show ?thesis
    by (simp add: infoBody_def)
qed




text \<open>
  Outside the amended claim: an email or a password that is truthy and not a string. An
  email that is not a string is answered with 500 by the \<^verbatim>\<open>catch\<close> block; so is a
  password that is not a string when the email is registered, whereas with an
  unregistered email the password is never compared and the answer is 401.
\<close>

lemma login_email_not_a_string:
  assumes "truthy em" "asString em = None" "truthy pw"
  shows "login bcryptHash bcryptCompare generateToken now newId d em pw
           = (failure 500 ''Login failed. Please try again.'', d)"
  using assms by (auto simp: login_def)

lemma login_password_not_a_string:
  assumes "eb \<noteq> []" "truthy pw" "asString pw = None" "User_findOne d eb = Some u"
  shows "login bcryptHash bcryptCompare generateToken now newId d (JStr eb) pw
           = (failure 500 ''Login failed. Please try again.'', d)"
  using assms by (auto simp: login_def User_findOne_toLowerCase)

section \<open>The states of a booking\<close>

text \<open>Controllers that leave the bookings alone.\<close>

lemma bookings_register: "bookings (snd (register h t now newId d b)) = bookings d"
  by (simp add: register_def User_create_def Let_def split: sum.splits prod.splits)

lemma bookings_login: "bookings (snd (login h c t now newId d e p)) = bookings d"
  by (auto simp: login_def User_create_def Let_def split: sum.splits option.splits)

lemma bookings_createListing: "bookings (snd (createListing now newId d u b)) = bookings d"
  by (auto simp: createListing_def Listing_create_def Let_def split: sum.splits)

lemma bookings_getAllListings: "bookings (snd (getAllListings r n d f)) = bookings d"
  by (simp add: getAllListings_def split: sum.splits)

lemma bookings_getListingById: "bookings (snd (getListingById d i)) = bookings d"
  by (simp add: getListingById_def split: sum.splits option.splits)

lemma bookings_updateListing: "bookings (snd (updateListing now d u i b)) = bookings d"
  by (auto simp: updateListing_def Listing_save_def Let_def split: sum.splits option.splits)

lemma bookings_deleteListing: "bookings (snd (deleteListing k d u i)) = bookings d"
  by (simp add: deleteListing_def Let_def split: sum.splits option.splits)

lemma bookings_updateListingStatus: "bookings (snd (updateListingStatus now d a i)) = bookings d"
  by (cases a) (simp_all add: updateListingStatus_def Let_def split: sum.splits option.splits)

lemma bookings_uploadImages: "bookings (snd (uploadImages up d fs)) = bookings d"
  by (simp add: uploadImages_def Let_def split: option.splits)

lemma bookings_createBooking:
  "bookings (snd (createBooking now newId d u l m)) = bookings d
   \<or> (\<exists>b. status b = ''Pending'' \<and> bookings (snd (createBooking now newId d u l m)) = bookings d @ [b])"
  by (auto simp: createBooking_def Let_def split: sum.splits option.splits)

lemma bookings_updateBookingStatus:
  "bookings (snd (updateBookingStatus now d u s i)) = bookings d
   \<or> (\<exists>t k b. s = JStr t \<and> t \<in> {''Accepted'', ''Rejected''} \<and> castObjectId i = Some k
        \<and> find (\<lambda>b. oid b = k \<and> bookingOwnerId b = oid u) (bookings d) = Some b
        \<and> bookings (snd (updateBookingStatus now d u s i))
            = replaceDoc (touch now b (b\<lparr>status := t\<rparr>)) (bookings d))"
  by (cases s) (auto simp: updateBookingStatus_def Let_def split: option.splits)

lemma touch_status: "status (touch now b (b\<lparr>status := t\<rparr>)) = t"
proof (cases "b\<lparr>status := t\<rparr> = b")
  case True
  then have "status (b\<lparr>status := t\<rparr>) = status b"
    by simp
  with True show ?thesis
    by (simp add: touch_def)
next
  case False
  then show ?thesis
    by (simp add: touch_def)
qed

lemma touch_oid: "oid (touch now b (b\<lparr>status := t\<rparr>)) = oid b"
  by (auto simp: touch_def)

text \<open>One operation, seen at a position of the collection.\<close>

lemma perform_bookings:
  "bookings (perform sv d op) = bookings d
   \<or> (\<exists>b. status b = ''Pending'' \<and> bookings (perform sv d op) = bookings d @ [b])
   \<or> (\<exists>now u t i k b. op = UpdateBookingStatus now u (JStr t) i \<and> t \<in> {''Accepted'', ''Rejected''}
        \<and> castObjectId i = Some k
        \<and> find (\<lambda>b. oid b = k \<and> bookingOwnerId b = oid u) (bookings d) = Some b
        \<and> bookings (perform sv d op) = replaceDoc (touch now b (b\<lparr>status := t\<rparr>)) (bookings d))"
proof (cases op)
  case (CreateBooking now newId u l m)
  then show ?thesis using bookings_createBooking [of now newId d u l m] by auto
next
  case (UpdateBookingStatus now u s i)
  then show ?thesis using bookings_updateBookingStatus [of now d u s i] by auto
qed (simp_all add: bookings_register bookings_login bookings_createListing bookings_getAllListings
      bookings_getListingById bookings_updateListing bookings_deleteListing
      bookings_updateListingStatus bookings_uploadImages getOwnerListings_def getAdminListings_def
      getOwnerBookings_def)

lemma perform_position:
  assumes "n < length (bookings d)"
  shows "n < length (bookings (perform sv d op))
     \<and> oid (bookings (perform sv d op) ! n) = oid (bookings d ! n)
     \<and> (status (bookings (perform sv d op) ! n) = status (bookings d ! n)
        \<or> status (bookings (perform sv d op) ! n) \<in> {''Accepted'', ''Rejected''})"
  using perform_bookings [of sv d op] assms
  by (auto simp: nth_append replaceDoc_def touch_status touch_oid)

lemma perform_all_decided:
  "n < length (bookings d) \<Longrightarrow> status (bookings d ! n) \<in> {''Accepted'', ''Rejected''}
   \<Longrightarrow> n < length (bookings (foldl (perform sv) d ops))
     \<and> oid (bookings (foldl (perform sv) d ops) ! n) = oid (bookings d ! n)
     \<and> status (bookings (foldl (perform sv) d ops) ! n) \<in> {''Accepted'', ''Rejected''}"
proof (induction ops arbitrary: d)
  case Nil
  then show ?case by simp
next
  case (Cons op ops)
  from perform_position [OF Cons.prems(1), of sv op] Cons.prems(2)
  have "n < length (bookings (perform sv d op))"
    "oid (bookings (perform sv d op) ! n) = oid (bookings d ! n)"
    "status (bookings (perform sv d op) ! n) \<in> {''Accepted'', ''Rejected''}"
    by auto
  with Cons.IH [of "perform sv d op"] show ?case by simp
qed

lemma distinct_oid_eq:
  assumes "distinct (map oid xs)" "n < length xs" "b \<in> set xs" "oid b = oid (xs ! n)"
  shows "b = xs ! n"
proof -
  from assms(3) obtain m where m: "m < length xs" "xs ! m = b" by (auto simp: in_set_conv_nth)
  with assms(4) have "map oid xs ! m = map oid xs ! n"
    using assms(2) by simp
  moreover have "m < length (map oid xs)" "n < length (map oid xs)"
    using m(1) assms(2) by simp_all
  ultimately have "m = n"
    using assms(1) nth_eq_iff_index_eq [of "map oid xs" m n] by blast
  with m show ?thesis
    by simp
qed

lemma perform_status_change:
  assumes "distinct (map oid (bookings d))" "n < length (bookings d)"
    and "status (bookings (perform sv d op) ! n) \<noteq> status (bookings d ! n)"
  shows "\<exists>now u s i. op = UpdateBookingStatus now u (JStr s) i
      \<and> castObjectId i = Some (oid (bookings d ! n))
      \<and> bookingOwnerId (bookings d ! n) = oid u
      \<and> s \<in> {''Accepted'', ''Rejected''}
      \<and> status (bookings (perform sv d op) ! n) = s"
proof -
  from perform_bookings [of sv d op] assms(2,3)
  obtain now u t i k b where op: "op = UpdateBookingStatus now u (JStr t) i"
    and t: "t \<in> {''Accepted'', ''Rejected''}" and k: "castObjectId i = Some k"
    and f: "find (\<lambda>b. oid b = k \<and> bookingOwnerId b = oid u) (bookings d) = Some b"
    and r: "bookings (perform sv d op) = replaceDoc (touch now b (b\<lparr>status := t\<rparr>)) (bookings d)"
    by (auto simp: nth_append)
  from f have b: "b \<in> set (bookings d)" "oid b = k" "bookingOwnerId b = oid u"
    by (auto simp: find_Some_iff)
  from r assms(2,3) have hit: "oid (bookings d ! n) = oid b"
    by (auto simp: replaceDoc_def touch_oid split: if_splits)
  with distinct_oid_eq [OF assms(1,2) b(1)] have "b = bookings d ! n" by simp
  moreover from r assms(2) hit have "status (bookings (perform sv d op) ! n) = t"
    by (simp add: replaceDoc_def touch_oid touch_status)
  ultimately show ?thesis using op t k b by auto
qed

lemma touch_bookingMessage: "bookingMessage (touch now b (b\<lparr>status := t\<rparr>)) = bookingMessage b"
  by (auto simp: touch_def)

lemma find_distinct_oid:
  "distinct (map oid xs) \<Longrightarrow> b \<in> set xs \<Longrightarrow> P b
     \<Longrightarrow> find (\<lambda>x. oid x = oid b \<and> P x) xs = Some b"
  by (induction xs) (auto simp: image_iff)

lemma updateBookingStatus_by_owner:
  assumes "distinct (map oid (bookings d))" "b \<in> set (bookings d)"
    and "castObjectId i = Some (oid b)" "bookingOwnerId b = oid u"
    and "s \<in> {''Accepted'', ''Rejected''}"
    and "\<forall>m. bookingMessage b = Some m \<longrightarrow> length m \<le> 500"
  shows "updateBookingStatus now d u (JStr s) i
      = (succeed 200 (''Booking request '' @ toLowerCase s) (touch now b (b\<lparr>status := s\<rparr>)),
         d\<lparr>bookings := replaceDoc (touch now b (b\<lparr>status := s\<rparr>)) (bookings d)\<rparr>)"
proof -
  have f: "find (\<lambda>x. oid x = oid b \<and> bookingOwnerId x = oid u) (bookings d) = Some b"
    using assms(1,2,4) by (intro find_distinct_oid) simp_all
  have v: "validateBooking (touch now b (b\<lparr>status := s\<rparr>)) = []"
    using assms(5,6)
    by (auto simp: validateBooking_def touch_status touch_bookingMessage split: option.splits)
  show ?thesis
    using assms(3,5) f v by (auto simp: updateBookingStatus_def Let_def)
qed

lemma updateBookingStatus_by_owner_stored:
  assumes "distinct (map oid (bookings d))" "b \<in> set (bookings d)"
    and "castObjectId i = Some (oid b)" "bookingOwnerId b = oid u"
    and "s \<in> {''Accepted'', ''Rejected''}"
    and "\<forall>m. bookingMessage b = Some m \<longrightarrow> length m \<le> 500"
  shows "httpStatus (fst (updateBookingStatus now d u (JStr s) i)) = 200
     \<and> (\<exists>b'. find (\<lambda>x. oid x = oid b) (bookings (snd (updateBookingStatus now d u (JStr s) i))) = Some b'
            \<and> status b' = s)"
proof -
  let ?b' = "touch now b (b\<lparr>status := s\<rparr>)"
  have "find (\<lambda>x. oid x = oid b \<and> True) (bookings d) = Some b"
    using assms(1,2) by (intro find_distinct_oid) simp_all
  then have "find (\<lambda>x. oid x = oid b) (bookings d) = Some b"
    by simp
  then have "find (\<lambda>x. oid x = oid b) (replaceDoc ?b' (bookings d)) = Some ?b'"
    by (rule find_replaceDoc) (simp add: touch_oid)
  then show ?thesis
    by (simp add: updateBookingStatus_by_owner [OF assms] succeed_def touch_status)
qed

lemma updateBookingStatus_reject_sample:
  "updateBookingStatus 9 sampleDb sampleOwner (JStr ''Rejected'') ''ccccccccccccccccccccccc1''
     = (succeed 200 ''Booking request rejected'' (sampleBooking\<lparr>status := ''Rejected'', updatedAt := 9\<rparr>),
        sampleDb\<lparr>bookings := [sampleBooking\<lparr>status := ''Rejected'', updatedAt := 9\<rparr>]\<rparr>)"
proof -
  have f: "find (\<lambda>b. oid b = ''ccccccccccccccccccccccc1'' \<and> bookingOwnerId b = oid sampleOwner)
      (bookings sampleDb) = Some sampleBooking"
    by (simp add: sampleDb_def sampleBooking_def sampleOwner_def)
  have t: "touch 9 sampleBooking (sampleBooking\<lparr>status := ''Rejected''\<rparr>)
      = sampleBooking\<lparr>status := ''Rejected'', updatedAt := 9\<rparr>"
    by (simp add: touch_def sampleBooking_def)
  have v: "validateBooking (sampleBooking\<lparr>status := ''Rejected'', updatedAt := 9\<rparr>) = []"
    by (simp add: validateBooking_def sampleBooking_def)
  have l: "toLowerCase ''Rejected'' = ''rejected''"
    by (simp add: toLowerCase_def toLowerCaseChar_def)
  have r: "replaceDoc (sampleBooking\<lparr>status := ''Rejected'', updatedAt := 9\<rparr>) (bookings sampleDb)
      = [sampleBooking\<lparr>status := ''Rejected'', updatedAt := 9\<rparr>]"
    by (simp add: replaceDoc_def sampleDb_def)
  show ?thesis
    by (simp add: updateBookingStatus_def castObjectId_sampleBooking f t v l r Let_def)
qed

text \<open>
  Claim C1, as amended. \<^verbatim>\<open>updateBookingStatus\<close> does not look at the current
  status: in a collection with unique ids, the owner of a stored booking who asks for
  Accepted or Rejected is answered with 200 and the stored status is the target, whatever
  the status was, so neither Accepted nor Rejected is terminal. What holds is this. A
  stored booking whose status is Accepted or Rejected keeps its place and its id and has
  a status among these two after every sequence of operations of the API: it never
  returns to Pending. And when one operation changes the status of a stored booking, the
  operation is \<^verbatim>\<open>updateBookingStatus\<close> with the id of that booking, called by its
  owner, with Accepted or Rejected as the target, and the new status is the target.
\<close>

theorem booking_status_transitions:
  "(distinct (map oid (bookings d)) \<and> b \<in> set (bookings d)
       \<and> castObjectId bid = Some (oid b) \<and> bookingOwnerId b = oid caller
       \<and> target \<in> {''Accepted'', ''Rejected''}
       \<and> (\<forall>m. bookingMessage b = Some m \<longrightarrow> length m \<le> 500) \<longrightarrow>
       httpStatus (fst (updateBookingStatus tm d caller (JStr target) bid)) = 200
       \<and> (\<exists>b'. find (\<lambda>x. oid x = oid b)
                  (bookings (snd (updateBookingStatus tm d caller (JStr target) bid))) = Some b'
              \<and> status b' = target))
   \<and> (n < length (bookings d) \<and> status (bookings d ! n) \<in> {''Accepted'', ''Rejected''} \<longrightarrow>
       n < length (bookings (foldl (perform sv) d ops))
       \<and> oid (bookings (foldl (perform sv) d ops) ! n) = oid (bookings d ! n)
       \<and> status (bookings (foldl (perform sv) d ops) ! n) \<in> {''Accepted'', ''Rejected''})
   \<and> (distinct (map oid (bookings d)) \<and> n < length (bookings d)
       \<and> status (bookings (perform sv d op) ! n) \<noteq> status (bookings d ! n) \<longrightarrow>
       (\<exists>now u s i. op = UpdateBookingStatus now u (JStr s) i
          \<and> castObjectId i = Some (oid (bookings d ! n))
          \<and> bookingOwnerId (bookings d ! n) = oid u
          \<and> s \<in> {''Accepted'', ''Rejected''}
          \<and> status (bookings (perform sv d op) ! n) = s))"
  using updateBookingStatus_by_owner_stored [of d b bid caller target tm]
    perform_all_decided [of n d sv ops] perform_status_change [of d n sv op]
  by blast

theorem booking_status_transitions_witness:
  "httpStatus (fst (updateBookingStatus 9 sampleDb sampleOwner (JStr ''Rejected'')
       ''ccccccccccccccccccccccc1'')) = 200
   \<and> 0 < length (bookings sampleDb) \<and> status (bookings sampleDb ! 0) = ''Accepted''
   \<and> status (bookings (foldl (perform sampleServices) sampleDb sampleOps) ! 0)
        \<in> {''Accepted'', ''Rejected''}
   \<and> distinct (map oid (bookings sampleDb))
   \<and> status (bookings (perform sampleServices sampleDb rejectSample) ! 0)
        \<noteq> status (bookings sampleDb ! 0)
   \<and> (\<exists>now u s i. rejectSample = UpdateBookingStatus now u (JStr s) i
          \<and> bookingOwnerId (bookings sampleDb ! 0) = oid u
          \<and> status (bookings (perform sampleServices sampleDb rejectSample) ! 0) = s)"
proof -
  have h1: "0 < length (bookings sampleDb)" "status (bookings sampleDb ! 0) = ''Accepted''"
    "distinct (map oid (bookings sampleDb))" "sampleBooking \<in> set (bookings sampleDb)"
    by (simp_all add: sampleDb_def sampleBooking_def)
  have h2: "castObjectId ''ccccccccccccccccccccccc1'' = Some (oid sampleBooking)"
    "bookingOwnerId sampleBooking = oid sampleOwner"
    "\<forall>m. bookingMessage sampleBooking = Some m \<longrightarrow> length m \<le> 500"
    by (simp_all add: castObjectId_sampleBooking sampleBooking_def sampleOwner_def)
  have h3: "status (bookings (perform sampleServices sampleDb rejectSample) ! 0)
      \<noteq> status (bookings sampleDb ! 0)"
    by (simp add: rejectSample_def updateBookingStatus_reject_sample)
       (simp add: sampleDb_def sampleBooking_def)
  show ?thesis
    using h1 h2 h3
      booking_status_transitions [where d = sampleDb and b = sampleBooking
        and bid = "''ccccccccccccccccccccccc1''" and caller = sampleOwner and target = "''Rejected''"
        and tm = 9 and n = 0 and sv = sampleServices and ops = sampleOps and op = rejectSample]
    by auto
qed

text \<open>
  The claim as it is written makes Accepted terminal. The sample booking is Accepted;
  its owner asks for Rejected, the answer is 200 and the stored status is Rejected.
\<close>

theorem updateBookingStatus_accepted_to_rejected_counterexample:
  "status sampleBooking = ''Accepted'' \<and> bookingOwnerId sampleBooking = oid sampleOwner
   \<and> sampleBooking \<in> set (bookings sampleDb)
   \<and> updateBookingStatus 9 sampleDb sampleOwner (JStr ''Rejected'') ''ccccccccccccccccccccccc1''
     = (succeed 200 ''Booking request rejected'' (sampleBooking\<lparr>status := ''Rejected'', updatedAt := 9\<rparr>),
        sampleDb\<lparr>bookings := [sampleBooking\<lparr>status := ''Rejected'', updatedAt := 9\<rparr>]\<rparr>)"
  by (simp add: updateBookingStatus_reject_sample)
     (simp add: sampleBooking_def sampleOwner_def sampleDb_def)

end
